theory Spec2Isabelle
  imports Main "HOL-Library.Word"
begin

section \<open>Strings\<close>

text \<open>
  A JavaScript string is a sequence of UTF-16 code units; \<open>.length\<close> counts code units.
  The source uses one non-ASCII character, the horizontal ellipsis U+2026, which is a
  single code unit.
\<close>

type_synonym ustring = "16 word list"

definition ascii :: "string \<Rightarrow> ustring" where
  "ascii s = map of_char s"

definition ELLIPSIS :: "16 word" where
  "ELLIPSIS = 0x2026"

definition DQUOTE :: "16 word" where
  "DQUOTE = 0x22"

text \<open>\<open>Array.prototype.join\<close> on a list of strings.\<close>

fun join :: "ustring \<Rightarrow> ustring list \<Rightarrow> ustring" where
  "join sep [] = []"
| "join sep [s] = s"
| "join sep (s # t # ts) = s @ sep @ join sep (t # ts)"

text \<open>Decimal rendering of a natural number and of an integer (\<open>String(n)\<close> for an
  integer-valued number below \<open>10^21\<close> in magnitude, and for a BigInt).\<close>

function nat_digits :: "nat \<Rightarrow> ustring" where
  "nat_digits n =
     (if n < 10 then [of_nat (48 + n)]
      else nat_digits (n div 10) @ [of_nat (48 + n mod 10)])"
  by pat_completeness auto
termination
  by (relation "measure id") auto

definition int_digits :: "int \<Rightarrow> ustring" where
  "int_digits i = (if i < 0 then ascii ''-'' @ nat_digits (nat (- i)) else nat_digits (nat i))"

section \<open>Values, objects and the heap\<close>

type_synonym addr = nat
type_synonym fid = nat
type_synonym pid = nat

text \<open>
  Runtime values. Numbers are the integer-valued doubles (rendered in decimal), \<open>NaN\<close> and
  the two infinities; \<open>VInfinity True\<close> is \<open>-Infinity\<close>. Objects live in the heap and a value
  refers to one by address, so that object identity is address equality and a structure
  may contain itself.
\<close>

datatype jsval =
    VUndefined
  | VNull
  | VBool bool
  | VNum int
  | VNaN
  | VInfinity bool
  | VBigInt int
  | VStr ustring
  | VSymbol ustring
  | VRef addr

text \<open>An own enumerable property is a data property or an accessor; the getter of an
  accessor either throws a value (\<open>Inl\<close>) or returns one (\<open>Inr\<close>).\<close>

datatype property = Data jsval | Getter "jsval + jsval"

text \<open>What a built-in operation throws: a fresh \<open>TypeError\<close> with the given message, or a
  value raised by user code it ran (a getter, a conversion method, a proxy trap).\<close>

datatype jsthrow = TypeError ustring | Raised jsval

text \<open>
  Heap objects:
  \<^item> arrays of data elements;
  \<^item> arrays with elements that may be accessors
    (\<open>Object.defineProperty(a, i, { get, enumerable: true })\<close>), without holes;
  \<^item> plain objects, with their own enumerable string-keyed properties in the order
    \<open>Object.keys\<close> reports them, and no \<open>toJSON\<close>, \<open>toString\<close> or \<open>valueOf\<close> of their own;
  \<^item> objects that are not converted to a string the inherited way, with what \<open>String\<close>
    does on them and their own enumerable properties: \<open>String\<close> throws a \<open>TypeError\<close> on an
    object without any conversion method (\<open>Object.create(null)\<close>), and throws what the
    method throws, or returns what it returns, on an object with a \<open>toString\<close> of its own;
    such an object is no \<open>Error\<close>, and it has no \<open>toJSON\<close>;
  \<^item> functions, with the identifier of their code and what \<open>String\<close> does on them: it
    returns their source text, or throws what a \<open>toString\<close> of their own throws (a
    property that is not enumerable: a function has no enumerable property of its own);
  \<^item> instances of \<open>Error\<close> that are not \<open>AssertError\<close>s (name, message, cause);
  \<^item> instances of \<open>AssertError\<close> (message, address of the \<open>info\<close> object, cause); their
    \<open>code\<close> is the constant \<open>'ASSERT_FAILED'\<close> and their \<open>name\<close> is \<open>'AssertError'\<close>;
  \<^item> promises, with an identifier under which the environment knows how they settle;
  \<^item> proxies \<open>new Proxy({}, { get() { throw e }, ownKeys() { throw e } })\<close> of an empty
    object, whose \<open>get\<close> and \<open>ownKeys\<close> traps throw the value \<open>e\<close>.
\<close>

datatype jsobj =
    OArray "jsval list"
  | OAccessorArray "property list"
  | OPlain "(ustring \<times> property) list"
  | OCustom "jsthrow + ustring" "(ustring \<times> property) list"
  | OFunction fid "jsthrow + ustring"
  | OError ustring ustring "jsval option"
  | OAssertError ustring addr "jsval option"
  | OPromise pid
  | OProxy jsval

type_synonym heap = "jsobj list"

text \<open>Addresses are indices into the heap and are only ever produced by \<open>alloc\<close>.\<close>

definition lookup :: "heap \<Rightarrow> addr \<Rightarrow> jsobj option" where
  "lookup h a = (if a < length h then Some (h ! a) else None)"

definition alloc :: "heap \<Rightarrow> jsobj \<Rightarrow> addr \<times> heap" where
  "alloc h obj = (length h, h @ [obj])"

section \<open>Built-in operations of the language\<close>

text \<open>
  The built-in operations are modelled on the values above, with unmodified built-in
  prototypes. An operation that can throw returns \<open>Inl\<close> of what it throws. \<open>typeof\<close>,
  \<open>Array.isArray\<close> and \<open>instanceof\<close> run no user code on these values and do not throw;
  \<open>String\<close>, \<open>Object.keys\<close>, \<open>slice\<close>, \<open>JSON.stringify\<close>, reading a property and object
  spread can.
\<close>

fun truthy :: "jsval \<Rightarrow> bool" where
  "truthy VUndefined = False"
| "truthy VNull = False"
| "truthy (VBool b) = b"
| "truthy (VNum n) = (n \<noteq> 0)"
| "truthy VNaN = False"
| "truthy (VInfinity _) = True"
| "truthy (VBigInt n) = (n \<noteq> 0)"
| "truthy (VStr s) = (s \<noteq> [])"
| "truthy (VSymbol _) = True"
| "truthy (VRef _) = True"

definition is_function :: "heap \<Rightarrow> jsval \<Rightarrow> bool" where
  "is_function h v =
     (case v of
        VRef a \<Rightarrow> (case lookup h a of Some (OFunction _ _) \<Rightarrow> True | _ \<Rightarrow> False)
      | _ \<Rightarrow> False)"

fun js_typeof :: "heap \<Rightarrow> jsval \<Rightarrow> ustring" where
  "js_typeof h VUndefined = ascii ''undefined''"
| "js_typeof h VNull = ascii ''object''"
| "js_typeof h (VBool _) = ascii ''boolean''"
| "js_typeof h (VNum _) = ascii ''number''"
| "js_typeof h VNaN = ascii ''number''"
| "js_typeof h (VInfinity _) = ascii ''number''"
| "js_typeof h (VBigInt _) = ascii ''bigint''"
| "js_typeof h (VStr _) = ascii ''string''"
| "js_typeof h (VSymbol _) = ascii ''symbol''"
| "js_typeof h (VRef a) =
     (if is_function h (VRef a) then ascii ''function'' else ascii ''object'')"

definition Array_isArray :: "heap \<Rightarrow> jsval \<Rightarrow> bool" where
  "Array_isArray h v =
     (case v of
        VRef a \<Rightarrow>
          (case lookup h a of
             Some (OArray _) \<Rightarrow> True
           | Some (OAccessorArray _) \<Rightarrow> True
           | _ \<Rightarrow> False)
      | _ \<Rightarrow> False)"

text \<open>Reading a property runs its getter, if it has one.\<close>

definition read_prop :: "property \<Rightarrow> jsthrow + jsval" where
  "read_prop p = (case p of Data v \<Rightarrow> Inr v | Getter (Inl e) \<Rightarrow> Inl (Raised e) | Getter (Inr v) \<Rightarrow> Inr v)"

text \<open>The elements of an array, as properties, and \<open>v.length\<close>.\<close>

definition array_elements :: "heap \<Rightarrow> jsval \<Rightarrow> property list" where
  "array_elements h v =
     (case v of
        VRef a \<Rightarrow>
          (case lookup h a of
             Some (OArray xs) \<Rightarrow> map Data xs
           | Some (OAccessorArray ps) \<Rightarrow> ps
           | _ \<Rightarrow> [])
      | _ \<Rightarrow> [])"

definition array_length :: "heap \<Rightarrow> jsval \<Rightarrow> nat" where
  "array_length h v = length (array_elements h v)"

text \<open>\<open>v.slice(0, n)\<close> on an array: the first \<open>n\<close> elements are read in order, and a getter
  that throws ends the copy.\<close>

fun read_each :: "property list \<Rightarrow> jsthrow + jsval list" where
  "read_each [] = Inr []"
| "read_each (p # ps) =
     (case read_prop p of
        Inl t \<Rightarrow> Inl t
      | Inr v \<Rightarrow> (case read_each ps of Inl t \<Rightarrow> Inl t | Inr vs \<Rightarrow> Inr (v # vs)))"

definition array_slice :: "heap \<Rightarrow> jsval \<Rightarrow> nat \<Rightarrow> jsthrow + jsval list" where
  "array_slice h v n = read_each (take n (array_elements h v))"

definition instanceof_AssertError :: "heap \<Rightarrow> jsval \<Rightarrow> bool" where
  "instanceof_AssertError h v =
     (case v of
        VRef a \<Rightarrow> (case lookup h a of Some (OAssertError _ _ _) \<Rightarrow> True | _ \<Rightarrow> False)
      | _ \<Rightarrow> False)"

definition instanceof_Error :: "heap \<Rightarrow> jsval \<Rightarrow> bool" where
  "instanceof_Error h v =
     (case v of
        VRef a \<Rightarrow>
          (case lookup h a of
             Some (OError _ _ _) \<Rightarrow> True
           | Some (OAssertError _ _ _) \<Rightarrow> True
           | _ \<Rightarrow> False)
      | _ \<Rightarrow> False)"

text \<open>The own enumerable properties of an object, in \<open>Object.keys\<close> order; listing them
  throws when the \<open>ownKeys\<close> trap of a proxy does. An \<open>AssertError\<close> has its class fields
  \<open>code\<close> and \<open>info\<close> and the assigned \<open>name\<close>; the message and the cause of an error are not
  enumerable.\<close>

fun own_enumerable :: "jsobj \<Rightarrow> jsthrow + (ustring \<times> property) list" where
  "own_enumerable (OArray xs) =
     Inr (map (\<lambda>i. (nat_digits i, Data (xs ! i))) [0 ..< length xs])"
| "own_enumerable (OAccessorArray ps) =
     Inr (map (\<lambda>i. (nat_digits i, ps ! i)) [0 ..< length ps])"
| "own_enumerable (OPlain ps) = Inr ps"
| "own_enumerable (OCustom _ ps) = Inr ps"
| "own_enumerable (OFunction _ _) = Inr []"
| "own_enumerable (OError _ _ _) = Inr []"
| "own_enumerable (OAssertError m i c) =
     Inr [(ascii ''code'', Data (VStr (ascii ''ASSERT_FAILED''))),
          (ascii ''info'', Data (VRef i)),
          (ascii ''name'', Data (VStr (ascii ''AssertError'')))]"
| "own_enumerable (OPromise _) = Inr []"
| "own_enumerable (OProxy e) = Inl (Raised e)"

text \<open>\<open>Object.keys(v)\<close>. No getter runs. The keys of a string are its indices, and
  \<open>undefined\<close> and \<open>null\<close> have none to list.\<close>

definition Object_keys :: "heap \<Rightarrow> jsval \<Rightarrow> jsthrow + ustring list" where
  "Object_keys h v =
     (case v of
        VRef a \<Rightarrow>
          (case lookup h a of
             Some obj \<Rightarrow>
               (case own_enumerable obj of Inl t \<Rightarrow> Inl t | Inr ps \<Rightarrow> Inr (map fst ps))
           | None \<Rightarrow> Inr [])
      | VUndefined \<Rightarrow> Inl (TypeError (ascii ''Cannot convert undefined or null to object''))
      | VNull \<Rightarrow> Inl (TypeError (ascii ''Cannot convert undefined or null to object''))
      | VStr s \<Rightarrow> Inr (map nat_digits [0 ..< length s])
      | _ \<Rightarrow> Inr [])"

text \<open>
  \<open>String(v)\<close>. An array is rendered by joining its elements with a comma, each element
  read and converted in turn, \<open>undefined\<close> and \<open>null\<close> elements as the empty string; an array
  that is already being joined contributes the empty string, as the engines do. The
  conversion throws what a getter of an element, the conversion method of an object or
  the \<open>get\<close> trap of a proxy throws, and a \<open>TypeError\<close> for an object without a conversion
  method. The second argument is the stack of arrays being joined.
\<close>

definition error_to_string :: "ustring \<Rightarrow> ustring \<Rightarrow> ustring" where
  "error_to_string name msg =
     (if name = [] then msg else if msg = [] then name else name @ ascii '': '' @ msg)"

function (sequential) js_to_string :: "heap \<Rightarrow> addr list \<Rightarrow> jsval \<Rightarrow> jsthrow + ustring"
  and join_items :: "heap \<Rightarrow> addr list \<Rightarrow> property list \<Rightarrow> jsthrow + ustring list"
where
  "js_to_string h st VUndefined = Inr (ascii ''undefined'')"
| "js_to_string h st VNull = Inr (ascii ''null'')"
| "js_to_string h st (VBool b) = Inr (if b then ascii ''true'' else ascii ''false'')"
| "js_to_string h st (VNum n) = Inr (int_digits n)"
| "js_to_string h st VNaN = Inr (ascii ''NaN'')"
| "js_to_string h st (VInfinity neg) =
     Inr (if neg then ascii ''-Infinity'' else ascii ''Infinity'')"
| "js_to_string h st (VBigInt n) = Inr (int_digits n)"
| "js_to_string h st (VStr s) = Inr s"
| "js_to_string h st (VSymbol d) = Inr (ascii ''Symbol('' @ d @ ascii '')'')"
| "js_to_string h st (VRef a) =
     (case lookup h a of
        None \<Rightarrow> Inr (ascii ''[object Object]'')
      | Some (OArray xs) \<Rightarrow>
          if a \<in> set st then Inr []
          else (case join_items h (a # st) (map Data xs) of
                  Inl t \<Rightarrow> Inl t
                | Inr ss \<Rightarrow> Inr (join (ascii '','') ss))
      | Some (OAccessorArray ps) \<Rightarrow>
          if a \<in> set st then Inr []
          else (case join_items h (a # st) ps of
                  Inl t \<Rightarrow> Inl t
                | Inr ss \<Rightarrow> Inr (join (ascii '','') ss))
      | Some (OPlain _) \<Rightarrow> Inr (ascii ''[object Object]'')
      | Some (OCustom conversion _) \<Rightarrow> conversion
      | Some (OFunction _ conversion) \<Rightarrow> conversion
      | Some (OError name msg _) \<Rightarrow> Inr (error_to_string name msg)
      | Some (OAssertError msg _ _) \<Rightarrow> Inr (error_to_string (ascii ''AssertError'') msg)
      | Some (OPromise _) \<Rightarrow> Inr (ascii ''[object Promise]'')
      | Some (OProxy e) \<Rightarrow> Inl (Raised e))"
| "join_items h st [] = Inr []"
| "join_items h st (p # ps) =
     (case read_prop p of
        Inl t \<Rightarrow> Inl t
      | Inr x \<Rightarrow>
          (case (if x = VUndefined \<or> x = VNull then Inr [] else js_to_string h st x) of
             Inl t \<Rightarrow> Inl t
           | Inr s \<Rightarrow>
               (case join_items h st ps of Inl t \<Rightarrow> Inl t | Inr ss \<Rightarrow> Inr (s # ss))))"
  by pat_completeness auto
termination
proof -
  have unvisited: "card ({..<n} - S) - Suc 0 < card ({..<n} - S)"
    if "a < n" and "a \<notin> S" for a n :: nat and S
  proof -
    from that have "a \<in> {..<n} - S" by simp
    then have "0 < card ({..<n} - S)" by (auto simp: card_gt_0_iff)
    then show ?thesis by simp
  qed
  show ?thesis
    by (relation "inv_image (less_than <*lex*> less_than)
          (\<lambda>x. case x of
             Inl (h, st, v) \<Rightarrow> (card ({..<length h} - set st), 0)
           | Inr (h, st, xs) \<Rightarrow> (card ({..<length h} - set st), Suc (length xs)))")
       (auto simp: lookup_def unvisited split: if_splits)
qed

definition js_String :: "heap \<Rightarrow> jsval \<Rightarrow> jsthrow + ustring" where
  "js_String h v = js_to_string h [] v"

text \<open>
  \<open>JSON.stringify(v)\<close> with one argument: the quoting of strings, and the serialisation
  of a value, of the elements of an array and of the members of an object. The result
  is \<open>None\<close> where \<open>JSON.stringify\<close> returns \<open>undefined\<close>. A BigInt and an object that is
  already being serialised throw a \<open>TypeError\<close>; a getter that throws ends the
  serialisation with what it threw, and so does the \<open>get\<close> trap of a proxy, which runs
  when \<open>toJSON\<close> is looked up. The second argument is the stack of objects being
  serialised.
\<close>

definition hex_digit :: "nat \<Rightarrow> 16 word" where
  "hex_digit d = (if d < 10 then of_nat (48 + d) else of_nat (87 + d))"

definition unicode_escape :: "16 word \<Rightarrow> ustring" where
  "unicode_escape c =
     (let n = unat c in
      [0x5C, 0x75, hex_digit (n div 4096 mod 16), hex_digit (n div 256 mod 16),
       hex_digit (n div 16 mod 16), hex_digit (n mod 16)])"

definition quote_unit :: "16 word \<Rightarrow> ustring" where
  "quote_unit c =
     (if c = 0x08 then [0x5C, 0x62]
      else if c = 0x09 then [0x5C, 0x74]
      else if c = 0x0A then [0x5C, 0x6E]
      else if c = 0x0C then [0x5C, 0x66]
      else if c = 0x0D then [0x5C, 0x72]
      else if c = 0x22 then [0x5C, 0x22]
      else if c = 0x5C then [0x5C, 0x5C]
      else if c < 0x20 then unicode_escape c
      else [c])"

definition is_high_surrogate :: "16 word \<Rightarrow> bool" where
  "is_high_surrogate c = (0xD800 \<le> c \<and> c \<le> 0xDBFF)"

definition is_low_surrogate :: "16 word \<Rightarrow> bool" where
  "is_low_surrogate c = (0xDC00 \<le> c \<and> c \<le> 0xDFFF)"

fun quote_units :: "ustring \<Rightarrow> ustring" where
  "quote_units [] = []"
| "quote_units [c] =
     (if is_high_surrogate c \<or> is_low_surrogate c then unicode_escape c else quote_unit c)"
| "quote_units (c # d # cs) =
     (if is_high_surrogate c then
        (if is_low_surrogate d then c # d # quote_units cs
         else unicode_escape c @ quote_units (d # cs))
      else if is_low_surrogate c then unicode_escape c @ quote_units (d # cs)
      else quote_unit c @ quote_units (d # cs))"

definition json_quote :: "ustring \<Rightarrow> ustring" where
  "json_quote s = [0x22] @ quote_units s @ [0x22]"

definition cyclic_error :: jsthrow where
  "cyclic_error = TypeError (ascii ''Converting circular structure to JSON'')"

definition bigint_error :: jsthrow where
  "bigint_error = TypeError (ascii ''Do not know how to serialize a BigInt'')"

function (sequential) json_value :: "heap \<Rightarrow> addr list \<Rightarrow> jsval \<Rightarrow> jsthrow + ustring option"
  and json_elems :: "heap \<Rightarrow> addr list \<Rightarrow> property list \<Rightarrow> jsthrow + ustring list"
  and json_members :: "heap \<Rightarrow> addr list \<Rightarrow> (ustring \<times> property) list \<Rightarrow> jsthrow + ustring list"
where
  "json_value h st VUndefined = Inr None"
| "json_value h st VNull = Inr (Some (ascii ''null''))"
| "json_value h st (VBool b) = Inr (Some (if b then ascii ''true'' else ascii ''false''))"
| "json_value h st (VNum n) = Inr (Some (int_digits n))"
| "json_value h st VNaN = Inr (Some (ascii ''null''))"
| "json_value h st (VInfinity _) = Inr (Some (ascii ''null''))"
| "json_value h st (VBigInt _) = Inl bigint_error"
| "json_value h st (VStr s) = Inr (Some (json_quote s))"
| "json_value h st (VSymbol _) = Inr None"
| "json_value h st (VRef a) =
     (case lookup h a of
        None \<Rightarrow> Inr (Some (ascii ''{}''))
      | Some (OFunction _ _) \<Rightarrow> Inr None
      | Some (OProxy e) \<Rightarrow> Inl (Raised e)
      | Some (OArray xs) \<Rightarrow>
          if a \<in> set st then Inl cyclic_error
          else (case json_elems h (a # st) (map Data xs) of
                  Inl e \<Rightarrow> Inl e
                | Inr ss \<Rightarrow> Inr (Some (ascii ''['' @ join (ascii '','') ss @ ascii '']'')))
      | Some (OAccessorArray ps) \<Rightarrow>
          if a \<in> set st then Inl cyclic_error
          else (case json_elems h (a # st) ps of
                  Inl e \<Rightarrow> Inl e
                | Inr ss \<Rightarrow> Inr (Some (ascii ''['' @ join (ascii '','') ss @ ascii '']'')))
      | Some obj \<Rightarrow>
          if a \<in> set st then Inl cyclic_error
          else (case own_enumerable obj of
                  Inl e \<Rightarrow> Inl e
                | Inr ps \<Rightarrow>
                    (case json_members h (a # st) ps of
                       Inl e \<Rightarrow> Inl e
                     | Inr ms \<Rightarrow> Inr (Some (ascii ''{'' @ join (ascii '','') ms @ ascii ''}'')))))"
| "json_elems h st [] = Inr []"
| "json_elems h st (p # ps) =
     (case read_prop p of
        Inl e \<Rightarrow> Inl e
      | Inr x \<Rightarrow>
          (case json_value h st x of
             Inl e \<Rightarrow> Inl e
           | Inr r \<Rightarrow>
               (case json_elems h st ps of
                  Inl e \<Rightarrow> Inl e
                | Inr rs \<Rightarrow> Inr ((case r of None \<Rightarrow> ascii ''null'' | Some s \<Rightarrow> s) # rs))))"
| "json_members h st [] = Inr []"
| "json_members h st ((k, p) # ps) =
     (case read_prop p of
        Inl e \<Rightarrow> Inl e
      | Inr v \<Rightarrow>
          (case json_value h st v of
             Inl e \<Rightarrow> Inl e
           | Inr r \<Rightarrow>
               (case json_members h st ps of
                  Inl e \<Rightarrow> Inl e
                | Inr rs \<Rightarrow>
                    Inr (case r of None \<Rightarrow> rs | Some s \<Rightarrow> (json_quote k @ ascii '':'' @ s) # rs))))"
  by pat_completeness auto
termination
proof -
  have unvisited: "card ({..<n} - S) - Suc 0 < card ({..<n} - S)"
    if "a < n" and "a \<notin> S" for a n :: nat and S
  proof -
    from that have "a \<in> {..<n} - S" by simp
    then have "0 < card ({..<n} - S)" by (auto simp: card_gt_0_iff)
    then show ?thesis by simp
  qed
  show ?thesis
    by (relation "inv_image (less_than <*lex*> less_than)
          (\<lambda>x. case x of
             Inl (h, st, v) \<Rightarrow> (card ({..<length h} - set st), 0)
           | Inr (Inl (h, st, xs)) \<Rightarrow> (card ({..<length h} - set st), Suc (length xs))
           | Inr (Inr (h, st, ps)) \<Rightarrow> (card ({..<length h} - set st), Suc (length ps)))")
       (auto simp: lookup_def unvisited split: if_splits)
qed

definition JSON_stringify :: "heap \<Rightarrow> jsval \<Rightarrow> jsthrow + ustring option" where
  "JSON_stringify h v = json_value h [] v"

text \<open>
  Reading a property by name. The names that are read (\<open>value\<close>, \<open>onError\<close>,
  \<open>catchNonAssertErrors\<close>, and \<open>then\<close> of an object that is not a promise) are not defined
  by the built-in prototypes, so a value without such an own property yields
  \<open>undefined\<close>; the message and the cause of an error are read from it; reading a property of
  \<open>undefined\<close> or \<open>null\<close> throws, and so does reading any property of a proxy whose \<open>get\<close>
  trap throws.
\<close>

definition get_property :: "heap \<Rightarrow> jsval \<Rightarrow> ustring \<Rightarrow> jsthrow + jsval" where
  "get_property h v k =
     (case v of
        VUndefined \<Rightarrow> Inl (TypeError (ascii ''Cannot read properties of undefined''))
      | VNull \<Rightarrow> Inl (TypeError (ascii ''Cannot read properties of null''))
      | VRef a \<Rightarrow>
          (case lookup h a of
             Some (OPlain ps) \<Rightarrow>
               (case map_of ps k of None \<Rightarrow> Inr VUndefined | Some p \<Rightarrow> read_prop p)
           | Some (OCustom _ ps) \<Rightarrow>
               (case map_of ps k of None \<Rightarrow> Inr VUndefined | Some p \<Rightarrow> read_prop p)
           | Some (OProxy e) \<Rightarrow> Inl (Raised e)
           | Some (OError n m c) \<Rightarrow>
               Inr (if k = ascii ''name'' then VStr n
                    else if k = ascii ''message'' then VStr m
                    else if k = ascii ''cause'' then (case c of None \<Rightarrow> VUndefined | Some x \<Rightarrow> x)
                    else VUndefined)
           | Some (OAssertError m i c) \<Rightarrow>
               Inr (if k = ascii ''code'' then VStr (ascii ''ASSERT_FAILED'')
                    else if k = ascii ''info'' then VRef i
                    else if k = ascii ''name'' then VStr (ascii ''AssertError'')
                    else if k = ascii ''message'' then VStr m
                    else if k = ascii ''cause'' then (case c of None \<Rightarrow> VUndefined | Some x \<Rightarrow> x)
                    else VUndefined)
           | _ \<Rightarrow> Inr VUndefined)
      | _ \<Rightarrow> Inr VUndefined)"

text \<open>Object spread \<open>{ ...v }\<close>: the own enumerable properties of \<open>v\<close> are listed and read,
  getters included, and copied as data properties; \<open>undefined\<close> and \<open>null\<close> contribute
  nothing.\<close>

fun read_all :: "(ustring \<times> property) list \<Rightarrow> jsthrow + (ustring \<times> property) list" where
  "read_all [] = Inr []"
| "read_all ((k, p) # ps) =
     (case read_prop p of
        Inl e \<Rightarrow> Inl e
      | Inr v \<Rightarrow> (case read_all ps of Inl e \<Rightarrow> Inl e | Inr qs \<Rightarrow> Inr ((k, Data v) # qs)))"

definition spread :: "heap \<Rightarrow> jsval \<Rightarrow> jsthrow + (ustring \<times> property) list" where
  "spread h v =
     (case v of
        VRef a \<Rightarrow>
          (case lookup h a of
             Some obj \<Rightarrow> (case own_enumerable obj of Inl t \<Rightarrow> Inl t | Inr ps \<Rightarrow> read_all ps)
           | None \<Rightarrow> Inr [])
      | VStr s \<Rightarrow> Inr (map (\<lambda>i. (nat_digits i, Data (VStr [s ! i]))) [0 ..< length s])
      | _ \<Rightarrow> Inr [])"

text \<open>Defining a property in an object literal: an existing key keeps its place.\<close>

fun set_prop :: "ustring \<Rightarrow> jsval \<Rightarrow> (ustring \<times> property) list \<Rightarrow> (ustring \<times> property) list" where
  "set_prop k v [] = [(k, Data v)]"
| "set_prop k v ((k', p) # ps) = (if k' = k then (k, Data v) # ps else (k', p) # set_prop k v ps)"

section \<open>The state of a run and its environment\<close>

text \<open>
  The world is the heap together with the effects the program has had on its
  surroundings so far. A function of the program under test takes its arguments and the
  world and either throws a value (\<open>Inl\<close>) or returns one (\<open>Inr\<close>), in a new world.
\<close>

record world =
  heap :: heap
  effects :: "jsval list"

type_synonym jsfun = "jsval list \<Rightarrow> world \<Rightarrow> (jsval + jsval) \<times> world"

text \<open>
  The environment of the library: the code of every function object; the lines of the
  stack trace of a fresh \<open>Error\<close> (if the runtime provides one) and the function name that
  the pattern \<open>at\s+([\w.$<>\[\]]+)\<close> finds in a line; and, for every promise, what
  awaiting it yields, that is whether it is rejected (\<open>Inl\<close>) or fulfilled (\<open>Inr\<close>) and the
  world at that moment, or \<open>None\<close> if it never settles; and the same for every thenable,
  an object with a callable \<open>then\<close>, under its address.
\<close>

record env =
  funs :: "fid \<Rightarrow> jsfun"
  stack :: "ustring list option"
  match_at :: "ustring \<Rightarrow> ustring option"
  settles :: "pid \<Rightarrow> world \<Rightarrow> ((jsval + jsval) \<times> world) option"
  thenables :: "addr \<Rightarrow> world \<Rightarrow> ((jsval + jsval) \<times> world) option"

text \<open>Throwing from a built-in operation: a \<open>TypeError\<close> is a new error object.\<close>

definition raise :: "jsthrow \<Rightarrow> world \<Rightarrow> jsval \<times> world" where
  "raise t w =
     (case t of
        Raised v \<Rightarrow> (v, w)
      | TypeError m \<Rightarrow>
          (let (a, h') = alloc (heap w) (OError (ascii ''TypeError'') m None)
           in (VRef a, w\<lparr>heap := h'\<rparr>)))"

definition throwing :: "jsthrow \<Rightarrow> world \<Rightarrow> (jsval + 'a) \<times> world" where
  "throwing t w = (let (e, w') = raise t w in (Inl e, w'))"

text \<open>Calling a value: the code of a function object runs; anything else is not callable.\<close>

definition call :: "env \<Rightarrow> jsval \<Rightarrow> jsfun" where
  "call env f args w =
     (case f of
        VRef a \<Rightarrow>
          (case lookup (heap w) a of
             Some (OFunction i _) \<Rightarrow> funs env i args w
           | _ \<Rightarrow> throwing (TypeError (ascii ''is not a function'')) w)
      | _ \<Rightarrow> throwing (TypeError (ascii ''is not a function'')) w)"

text \<open>The optional call \<open>f?.(args)\<close>.\<close>

definition call_optional :: "env \<Rightarrow> jsval \<Rightarrow> jsfun" where
  "call_optional env f args w =
     (if f = VUndefined \<or> f = VNull then (Inr VUndefined, w) else call env f args w)"

section \<open>The library\<close>

subsection \<open>getCallerName and summarizeValue\<close>

definition getCallerName :: "env \<Rightarrow> nat \<Rightarrow> ustring option" where
  "getCallerName env stackOffset =
     (case stack env of
        None \<Rightarrow> None
      | Some lines \<Rightarrow>
          if stackOffset < length lines then match_at env (lines ! stackOffset) else None)"

text \<open>\<open>.map((x) => JSON.stringify(x))\<close> on the copy that \<open>slice\<close> made: the calls run in
  order and the first one that throws ends the map.\<close>

fun map_stringify :: "heap \<Rightarrow> jsval list \<Rightarrow> jsthrow + ustring option list" where
  "map_stringify h [] = Inr []"
| "map_stringify h (x # xs) =
     (case JSON_stringify h x of
        Inl e \<Rightarrow> Inl e
      | Inr r \<Rightarrow> (case map_stringify h xs of Inl e \<Rightarrow> Inl e | Inr rs \<Rightarrow> Inr (r # rs)))"

text \<open>\<open>join\<close> renders an \<open>undefined\<close> element as the empty string.\<close>

definition join_optional :: "ustring \<Rightarrow> ustring option list \<Rightarrow> ustring" where
  "join_optional sep rs = join sep (map (\<lambda>r. case r of None \<Rightarrow> [] | Some s \<Rightarrow> s) rs)"

definition summarizeValue :: "heap \<Rightarrow> jsval \<Rightarrow> jsthrow + ustring" where
  "summarizeValue h v =
     (let t = js_typeof h v in
      if v = VNull then Inr (ascii ''null'')
      else if Array_isArray h v then
        (case array_slice h v 3 of
           Inl e \<Rightarrow> Inl e
         | Inr xs \<Rightarrow>
             (case map_stringify h xs of
                Inl e \<Rightarrow> Inl e
              | Inr rs \<Rightarrow>
                  (let sample = join_optional (ascii '', '') rs in
                   Inr (ascii ''array(len='' @ nat_digits (array_length h v)
                        @ ascii '', sample=['' @ sample
                        @ (if array_length h v > 3 then ascii '', '' @ [ELLIPSIS] else [])
                        @ ascii ''])''))))
      else if t = ascii ''object'' then
        (case Object_keys h v of
           Inl e \<Rightarrow> Inl e
         | Inr ks \<Rightarrow>
             (let keys = take 3 ks in
              Inr (ascii ''object(keys=['' @ join (ascii '', '') keys
                   @ (if length keys > 3 then ascii '', '' @ [ELLIPSIS] else []) @ ascii ''])'')))
      else if t = ascii ''string'' then
        (case v of
           VStr s \<Rightarrow>
             Inr (ascii ''string(len='' @ nat_digits (length s) @ ascii '', sample='' @ [DQUOTE]
                  @ take 12 s @ (if length s > 12 then [ELLIPSIS] else []) @ [DQUOTE] @ ascii '')'')
         | _ \<Rightarrow>
             (case js_String h v of
                Inl e \<Rightarrow> Inl e
              | Inr s \<Rightarrow> Inr (t @ ascii ''('' @ s @ ascii '')'')))
      else
        (case js_String h v of
           Inl e \<Rightarrow> Inl e
         | Inr s \<Rightarrow> Inr (t @ ascii ''('' @ s @ ascii '')'')))"

subsection \<open>AssertError, toAssertError and assert\<close>

text \<open>\<open>info?.value\<close>\<close>

definition optional_value :: "heap \<Rightarrow> jsval \<Rightarrow> jsthrow + jsval" where
  "optional_value h info =
     (if info = VUndefined \<or> info = VNull then Inr VUndefined
      else get_property h info (ascii ''value''))"

text \<open>
  The constructor \<open>new AssertError(message, info, cause)\<close>. It returns the new error, or
  throws what reading \<open>info\<close> or summarising \<open>info.value\<close> throws. The error and its \<open>info\<close>
  object \<open>{ ...info, caller }\<close> are allocated when the constructor completes.
\<close>

definition new_AssertError :: "env \<Rightarrow> ustring \<Rightarrow> jsval \<Rightarrow> jsval \<Rightarrow> world \<Rightarrow> (jsval + jsval) \<times> world" where
  "new_AssertError env message info cause w =
     (let caller = getCallerName env 3; h = heap w in
      case optional_value h info of
        Inl t \<Rightarrow> throwing t w
      | Inr iv \<Rightarrow>
          (case (if iv \<noteq> VUndefined then
                   (case get_property h info (ascii ''value'') of
                      Inl t \<Rightarrow> Inl t
                    | Inr iv' \<Rightarrow>
                        (case summarizeValue h iv' of Inl t \<Rightarrow> Inl t | Inr s \<Rightarrow> Inr (Some s)))
                 else Inr None) of
             Inl t \<Rightarrow> throwing t w
           | Inr typeSummary \<Rightarrow>
               (let base = (if message \<noteq> [] then message
                            else (case caller of Some c \<Rightarrow> c | None \<Rightarrow> ascii ''assert'')
                                 @ ascii '' failed'');
                    fullMsg = (case typeSummary of
                                 Some s \<Rightarrow>
                                   if s \<noteq> [] then base @ ascii '' (got: '' @ s @ ascii '')''
                                   else base
                               | None \<Rightarrow> base)
                in case spread h info of
                     Inl t \<Rightarrow> throwing t w
                   | Inr ps \<Rightarrow>
                       (let callerv = (case caller of Some c \<Rightarrow> VStr c | None \<Rightarrow> VUndefined);
                            (i, h1) = alloc h (OPlain (set_prop (ascii ''caller'') callerv ps));
                            (a, h2) = alloc h1
                               (OAssertError fullMsg i (if truthy cause then Some cause else None))
                        in (Inr (VRef a), w\<lparr>heap := h2\<rparr>)))))"

text \<open>\<open>err.message\<close> of an error object.\<close>

definition message_of :: "heap \<Rightarrow> jsval \<Rightarrow> ustring" where
  "message_of h v =
     (case v of
        VRef a \<Rightarrow>
          (case lookup h a of
             Some (OError _ m _) \<Rightarrow> m
           | Some (OAssertError m _ _) \<Rightarrow> m
           | _ \<Rightarrow> [])
      | _ \<Rightarrow> [])"

text \<open>\<open>toAssertError(e)\<close>. When \<open>e\<close> is not an \<open>Error\<close>, \<open>String(e)\<close> runs first, and what it
  throws leaves the function before any error is created.\<close>

definition toAssertError :: "env \<Rightarrow> jsval \<Rightarrow> world \<Rightarrow> (jsval + jsval) \<times> world" where
  "toAssertError env e w =
     (if instanceof_AssertError (heap w) e then (Inr e, w)
      else
        (case (if instanceof_Error (heap w) e then Inr (e, heap w)
               else (case js_String (heap w) e of
                       Inl t \<Rightarrow> Inl t
                     | Inr s \<Rightarrow>
                         (let (a, h') = alloc (heap w) (OError (ascii ''Error'') s None)
                          in Inr (VRef a, h')))) of
           Inl t \<Rightarrow> throwing t w
         | Inr (err, h1) \<Rightarrow>
             (let (i, h2) = alloc h1 (OPlain [(ascii ''cause'', Data err)])
              in new_AssertError env (message_of h2 err) (VRef i) err (w\<lparr>heap := h2\<rparr>))))"

text \<open>\<open>assert(condition, message = 'Assertion failed', info?)\<close>; an omitted message is
  \<open>None\<close>. A call that returns returns \<open>undefined\<close>.\<close>

definition assert :: "env \<Rightarrow> jsval \<Rightarrow> ustring option \<Rightarrow> jsval \<Rightarrow> world \<Rightarrow> (jsval + jsval) \<times> world" where
  "assert env condition message info w =
     (if \<not> truthy condition then
        (case new_AssertError env
                (case message of None \<Rightarrow> ascii ''Assertion failed'' | Some m \<Rightarrow> m) info VUndefined w of
           (Inl e, w1) \<Rightarrow> (Inl e, w1)
         | (Inr ae, w1) \<Rightarrow> (Inl ae, w1))
      else (Inr VUndefined, w))"

subsection \<open>handleError and the synchronous wrapper\<close>

definition handleError :: "env \<Rightarrow> jsval \<Rightarrow> jsval \<Rightarrow> jsval \<Rightarrow> jsval \<Rightarrow> world \<Rightarrow> (jsval + jsval) \<times> world" where
  "handleError env e onError catchNonAssertErrors fallback w =
     (if instanceof_AssertError (heap w) e then
        (case call_optional env onError [e] w of
           (Inl x, w1) \<Rightarrow> (Inl x, w1)
         | (Inr _, w1) \<Rightarrow> (Inr fallback, w1))
      else if truthy catchNonAssertErrors then
        (case toAssertError env e w of
           (Inl x, w1) \<Rightarrow> (Inl x, w1)
         | (Inr ae, w1) \<Rightarrow>
             (case call_optional env onError [ae] w1 of
                (Inl x, w2) \<Rightarrow> (Inl x, w2)
              | (Inr _, w2) \<Rightarrow> (Inr fallback, w2)))
      else (Inl e, w))"

text \<open>The parameter pattern \<open>{ onError, catchNonAssertErrors = false } = {}\<close>: the options
  are read once, when the wrapper is built.\<close>

definition read_options :: "heap \<Rightarrow> jsval \<Rightarrow> jsthrow + (jsval \<times> jsval)" where
  "read_options h opts =
     (if opts = VUndefined then Inr (VUndefined, VBool False)
      else
        (case get_property h opts (ascii ''onError'') of
           Inl t \<Rightarrow> Inl t
         | Inr onError \<Rightarrow>
             (case get_property h opts (ascii ''catchNonAssertErrors'') of
                Inl t \<Rightarrow> Inl t
              | Inr c \<Rightarrow> Inr (onError, if c = VUndefined then VBool False else c))))"

text \<open>The function that \<open>wrapSync\<close> returns, and \<open>wrapSync\<close> itself.\<close>

definition wrapSync_fn :: "env \<Rightarrow> jsval \<Rightarrow> jsval \<Rightarrow> jsval \<Rightarrow> jsval \<Rightarrow> jsfun" where
  "wrapSync_fn env fallback fn onError catchNonAssertErrors args w =
     (case call env fn args w of
        (Inr v, w1) \<Rightarrow> (Inr v, w1)
      | (Inl e, w1) \<Rightarrow> handleError env e onError catchNonAssertErrors fallback w1)"

definition wrapSync :: "env \<Rightarrow> jsval \<Rightarrow> jsval \<Rightarrow> jsval \<Rightarrow> world \<Rightarrow> (jsval + jsfun) \<times> world" where
  "wrapSync env fallback fn opts w =
     (case read_options (heap w) opts of
        Inl t \<Rightarrow> throwing t w
      | Inr (onError, c) \<Rightarrow> (Inr (wrapSync_fn env fallback fn onError c), w))"

subsection \<open>assertRoute\<close>

datatype route_result = Value jsval | Function jsfun

definition assertRoute :: "env \<Rightarrow> jsval \<Rightarrow> jsval \<Rightarrow> jsval \<Rightarrow> jsval list \<Rightarrow> world \<Rightarrow> (jsval + route_result) \<times> world" where
  "assertRoute env fallbackOrFn fnOrOpts options args w =
     (let (fallback, fn, opts) =
            (if js_typeof (heap w) fallbackOrFn = ascii ''function''
             then (VUndefined, fallbackOrFn, fnOrOpts)
             else (fallbackOrFn, fnOrOpts, options))
      in case wrapSync env fallback fn opts w of
           (Inl e, w1) \<Rightarrow> (Inl e, w1)
         | (Inr wrapped, w1) \<Rightarrow>
             if args \<noteq> [] then
               (case wrapped args w1 of
                  (Inl e, w2) \<Rightarrow> (Inl e, w2)
                | (Inr v, w2) \<Rightarrow> (Inr (Value v), w2))
             else (Inr (Function wrapped), w1))"

text \<open>A call \<open>assertRoute(a0, a1, ...)\<close> binds the first three arguments to the three named
  parameters (\<open>undefined\<close> where an argument is missing) and the others to the rest
  parameter \<open>args\<close>.\<close>

definition argument :: "jsval list \<Rightarrow> nat \<Rightarrow> jsval" where
  "argument actuals i = (if i < length actuals then actuals ! i else VUndefined)"

definition assertRoute_call :: "env \<Rightarrow> jsval list \<Rightarrow> world \<Rightarrow> (jsval + route_result) \<times> world" where
  "assertRoute_call env actuals w =
     assertRoute env (argument actuals 0) (argument actuals 1) (argument actuals 2)
       (drop 3 actuals) w"

subsection \<open>The asynchronous wrapper\<close>

text \<open>
  \<open>await v\<close>: a promise yields what the environment says it settles to, in the world at
  that moment. Of any other object the property \<open>then\<close> is read, and what that throws is
  the rejection; a thenable yields what the environment says; an object that is not a
  thenable yields itself, as every value that is not an object does.
\<close>

definition await :: "env \<Rightarrow> jsval \<Rightarrow> world \<Rightarrow> ((jsval + jsval) \<times> world) option" where
  "await env v w =
     (case v of
        VRef a \<Rightarrow>
          (case lookup (heap w) a of
             Some (OPromise p) \<Rightarrow> settles env p w
           | _ \<Rightarrow>
               (case get_property (heap w) v (ascii ''then'') of
                  Inl t \<Rightarrow> Some (throwing t w)
                | Inr m \<Rightarrow> if is_function (heap w) m then thenables env a w else Some (Inr v, w)))
      | _ \<Rightarrow> Some (Inr v, w))"







subsection \<open>isValid\<close>



section \<open>Notions used to state the properties\<close>


text \<open>\<open>s.includes(t)\<close> on strings.\<close>

fun starts_with :: "ustring \<Rightarrow> ustring \<Rightarrow> bool" where
  "starts_with s [] = True"
| "starts_with [] (c # t) = False"
| "starts_with (d # s) (c # t) = (d = c \<and> starts_with s t)"

fun js_includes :: "ustring \<Rightarrow> ustring \<Rightarrow> bool" where
  "js_includes [] t = (t = [])"
| "js_includes (c # s) t = (starts_with (c # s) t \<or> js_includes s t)"

text \<open>The message of a new \<open>AssertError\<close> before any \<open>(got: ...)\<close> clause, and the value it
  stores under \<open>info.caller\<close>.\<close>

definition base_message :: "env \<Rightarrow> ustring \<Rightarrow> ustring" where
  "base_message env message =
     (if message \<noteq> [] then message
      else (case getCallerName env 3 of Some c \<Rightarrow> c | None \<Rightarrow> ascii ''assert'')
           @ ascii '' failed'')"

definition caller_value :: "env \<Rightarrow> jsval" where
  "caller_value env = (case getCallerName env 3 of Some c \<Rightarrow> VStr c | None \<Rightarrow> VUndefined)"

section \<open>A sample program\<close>

text \<open>
  An environment without stack traces and a program of eight functions on top of it.
  The first seven are numbered by the addresses of their function objects:
  \<^item> 2: \<open>(x) => x\<close>
  \<^item> 3: \<open>() => { assert(false) }\<close>
  \<^item> 4: \<open>() => { throw new Error('boom') }\<close>
  \<^item> 5: \<open>(err) => { record(err) }\<close>, which adds its argument to the effects
  \<^item> 6: \<open>() => { throw 'callback failed' }\<close>
  \<^item> 7: a function returning a new promise 7, which is rejected with a failed assertion
  \<^item> 8: a function returning a new promise 8, which is fulfilled with 42
  \<^item> 9: \<open>() => { throw bare }\<close>, where \<open>bare\<close> is the object at address 13
\<close>

definition base_env :: env where
  "base_env =
     \<lparr> funs = (\<lambda>i args w. (Inr VUndefined, w)), stack = None,
       match_at = (\<lambda>line. None), settles = (\<lambda>p w. None), thenables = (\<lambda>a w. None) \<rparr>"

definition sample_funs :: "fid \<Rightarrow> jsfun" where
  "sample_funs i args w =
     (if i = 2 then (Inr (argument args 0), w)
      else if i = 3 then assert base_env (VBool False) None VUndefined w
      else if i = 4 then
        (let (a, h') = alloc (heap w) (OError (ascii ''Error'') (ascii ''boom'') None)
         in (Inl (VRef a), w\<lparr>heap := h'\<rparr>))
      else if i = 5 then (Inr VUndefined, w\<lparr>effects := effects w @ [argument args 0]\<rparr>)
      else if i = 6 then (Inl (VStr (ascii ''callback failed'')), w)
      else if i = 7 then
        (let (a, h') = alloc (heap w) (OPromise 7) in (Inr (VRef a), w\<lparr>heap := h'\<rparr>))
      else if i = 8 then
        (let (a, h') = alloc (heap w) (OPromise 8) in (Inr (VRef a), w\<lparr>heap := h'\<rparr>))
      else if i = 9 then (Inl (VRef 13), w)
      else (Inr VUndefined, w))"

definition sample_settles :: "pid \<Rightarrow> world \<Rightarrow> ((jsval + jsval) \<times> world) option" where
  "sample_settles p w =
     (if p = 7 then Some (assert base_env (VBool False) None VUndefined w)
      else if p = 8 then Some (Inr (VNum 42), w)
      else None)"

definition sample_env :: env where
  "sample_env =
     \<lparr> funs = sample_funs, stack = None, match_at = (\<lambda>line. None), settles = sample_settles,
       thenables = (\<lambda>a w. None) \<rparr>"

text \<open>
  The heap of the sample program: two empty objects at addresses 0 and 1, the seven
  function objects at addresses 2 to 8 (their source texts abbreviated), then the option
  objects \<open>{ onError: f5 }\<close> (9), \<open>{ onError: f5, catchNonAssertErrors: true }\<close> (10),
  \<open>{ onError: f6 }\<close> (11) and \<open>{ onError: f6, catchNonAssertErrors: true }\<close> (12).
\<close>

definition sample_heap :: heap where
  "sample_heap =
     [OPlain [],
      OPlain [],
      OFunction 2 (Inr (ascii ''f2'')),
      OFunction 3 (Inr (ascii ''f3'')),
      OFunction 4 (Inr (ascii ''f4'')),
      OFunction 5 (Inr (ascii ''f5'')),
      OFunction 6 (Inr (ascii ''f6'')),
      OFunction 7 (Inr (ascii ''f7'')),
      OFunction 8 (Inr (ascii ''f8'')),
      OPlain [(ascii ''onError'', Data (VRef 5))],
      OPlain [(ascii ''onError'', Data (VRef 5)),
              (ascii ''catchNonAssertErrors'', Data (VBool True))],
      OPlain [(ascii ''onError'', Data (VRef 6))],
      OPlain [(ascii ''onError'', Data (VRef 6)),
              (ascii ''catchNonAssertErrors'', Data (VBool True))]]"

definition sample_world :: world where
  "sample_world = \<lparr> heap = sample_heap, effects = [] \<rparr>"

text \<open>The objects a failed \<open>assert(false)\<close> adds to a heap of \<open>n\<close> objects: the \<open>info\<close> object
  \<open>{ caller: undefined }\<close> and the error.\<close>

definition failure_objects :: "nat \<Rightarrow> jsobj list" where
  "failure_objects n =
     [OPlain [(ascii ''caller'', Data VUndefined)],
      OAssertError (ascii ''Assertion failed'') n None]"

text \<open>The sample world after a call of function 3.\<close>

definition failed_world :: world where
  "failed_world = sample_world\<lparr>heap := sample_heap @ failure_objects 13\<rparr>"

text \<open>The sample world after a call of function 4, and after the \<open>Error\<close> it threw has
  been normalised by \<open>toAssertError\<close>.\<close>

definition boom_world :: world where
  "boom_world =
     sample_world\<lparr>heap := sample_heap @ [OError (ascii ''Error'') (ascii ''boom'') None]\<rparr>"

definition recovered_world :: world where
  "recovered_world =
     sample_world\<lparr>heap := sample_heap @
        [OError (ascii ''Error'') (ascii ''boom'') None,
         OPlain [(ascii ''cause'', Data (VRef 13))],
         OPlain [(ascii ''cause'', Data (VRef 13)), (ascii ''caller'', Data VUndefined)],
         OAssertError (ascii ''boom'') 15 (Some (VRef 13))]\<rparr>"

text \<open>The sample heap with two more objects: \<open>bare = Object.create(null)\<close> at address 13,
  and at address 14 the object of function 9, which throws \<open>bare\<close>. Then that world after
  \<open>String(bare)\<close> has thrown its \<open>TypeError\<close>.\<close>

definition no_conversion :: ustring where
  "no_conversion = ascii ''Cannot convert object to primitive value''"

definition bare_world :: world where
  "bare_world =
     sample_world\<lparr>heap := sample_heap @
        [OCustom (Inl (TypeError no_conversion)) [], OFunction 9 (Inr (ascii ''f9''))]\<rparr>"

definition unconverted_world :: world where
  "unconverted_world =
     sample_world\<lparr>heap := sample_heap @
        [OCustom (Inl (TypeError no_conversion)) [], OFunction 9 (Inr (ascii ''f9'')),
         OError (ascii ''TypeError'') no_conversion None]\<rparr>"

text \<open>
  Sample heaps for the summariser:
  \<^item> the array \<open>[1, 2, 3, 4]\<close> at address 0 and \<open>{ value: [1, 2, 3, 4] }\<close> at address 2;
  \<^item> the array \<open>[1n]\<close> holding a BigInt at address 0 and \<open>{ value: [1n] }\<close> at address 2;
  \<^item> an array that contains itself (\<open>a = []; a.push(a)\<close>);
  \<^item> an object that contains itself (\<open>o = {}; o.self = o\<close>);
  \<^item> an array at address 0 whose only element is the object at address 2, which has an
    accessor \<open>x\<close> whose getter throws \<open>'no'\<close>;
  \<^item> a function with a \<open>toString\<close> of its own that throws \<open>'no'\<close>;
  \<^item> a proxy whose traps throw \<open>'no'\<close>;
  \<^item> an array whose element 0 is an accessor whose getter throws \<open>'no'\<close>.
\<close>

definition numbers_heap :: heap where
  "numbers_heap =
     [OArray [VNum 1, VNum 2, VNum 3, VNum 4], OPlain [],
      OPlain [(ascii ''value'', Data (VRef 0))]]"

definition bigint_heap :: heap where
  "bigint_heap =
     [OArray [VBigInt 1], OPlain [], OPlain [(ascii ''value'', Data (VRef 0))]]"



definition getter_heap :: heap where
  "getter_heap =
     [OArray [VRef 2], OPlain [], OPlain [(ascii ''x'', Getter (Inl (VStr (ascii ''no''))))]]"


definition proxy_heap :: heap where
  "proxy_heap = [OProxy (VStr (ascii ''no''))]"


text \<open>The object \<open>{ value: a }\<close> at address 2, where \<open>a\<close> is the array at address 0 that
  contains itself.\<close>

definition cyclic_info_heap :: heap where
  "cyclic_info_heap = [OArray [VRef 0], OPlain [], OPlain [(ascii ''value'', Data (VRef 0))]]"

definition cyclic_info_world :: world where
  "cyclic_info_world = \<lparr> heap = cyclic_info_heap, effects = [] \<rparr>"

definition numbers_world :: world where
  "numbers_world = \<lparr> heap = numbers_heap, effects = [] \<rparr>"

definition bigint_world :: world where
  "bigint_world = \<lparr> heap = bigint_heap, effects = [] \<rparr>"

text \<open>The message of the failure that \<open>assert(false, 'custom', { value: [1, 2, 3, 4] })\<close>
  throws.\<close>

definition custom_message :: ustring where
  "custom_message =
     ascii ''custom (got: array(len=4, sample=[1, 2, 3, '' @ [ELLIPSIS] @ ascii '']))''"

text \<open>The sample world after a call of function 7, which returns a new promise, and at
  the moment that promise is rejected with a failed assertion.\<close>

definition promise_world :: world where
  "promise_world = sample_world\<lparr>heap := sample_heap @ [OPromise 7]\<rparr>"

definition rejected_world :: world where
  "rejected_world = sample_world\<lparr>heap := sample_heap @ OPromise 7 # failure_objects 14\<rparr>"

text \<open>The sample world after a call of function 8.\<close>

definition fulfilled_world :: world where
  "fulfilled_world = sample_world\<lparr>heap := sample_heap @ [OPromise 8]\<rparr>"

section \<open>Basic facts\<close>

text \<open>The code units of two ASCII literals agree only if the literals do.\<close>

lemma unat_of_char_16: "unat (of_char c :: 16 word) = of_char c"
proof -
  have "(of_char c :: nat) < 2 ^ 16"
    by (rule less_trans [OF nat_of_char_less_256]) simp
  then have "unat (word_of_nat (of_char c) :: 16 word) = of_char c"
    by (simp add: unat_of_nat)
  then show ?thesis by (simp add: of_nat_of_char)
qed

lemma inj_of_char_16: "inj (of_char :: char \<Rightarrow> 16 word)"
proof (rule injI)
  fix c d :: char
  assume "(of_char c :: 16 word) = of_char d"
  then have "unat (of_char c :: 16 word) = unat (of_char d :: 16 word)" by (rule arg_cong)
  then have "(of_char c :: nat) = of_char d" by (simp only: unat_of_char_16)
  then show "c = d" by (rule of_char_eqI)
qed

lemma ascii_eq_iff [simp]: "ascii s = ascii t \<longleftrightarrow> s = t"
  unfolding ascii_def by (rule inj_map_eq_map [OF inj_of_char_16])

lemma ascii_Nil_iff [simp]: "ascii s = [] \<longleftrightarrow> s = []" "[] = ascii s \<longleftrightarrow> s = []"
  by (auto simp: ascii_def)

lemma typeof_function_iff: "js_typeof h v = ascii ''function'' \<longleftrightarrow> is_function h v"
  by (cases v) (simp_all add: is_function_def)

lemma call_optional_absent:
  "onError = VUndefined \<or> onError = VNull \<Longrightarrow>
   call_optional env onError args w = (Inr VUndefined, w)"
  by (auto simp: call_optional_def)

lemma call_optional_present:
  "onError \<noteq> VUndefined \<Longrightarrow> onError \<noteq> VNull \<Longrightarrow>
   call_optional env onError args w = call env onError args w"
  by (simp add: call_optional_def)

text \<open>The sample program, run.\<close>

lemmas sample_defs =
  sample_env_def sample_funs_def sample_settles_def sample_world_def sample_heap_def
  failed_world_def failure_objects_def base_env_def boom_world_def recovered_world_def
  promise_world_def rejected_world_def fulfilled_world_def bare_world_def
  unconverted_world_def

lemmas run_defs =
  call_def call_optional_def lookup_def alloc_def argument_def assert_def new_AssertError_def
  getCallerName_def optional_value_def spread_def get_property_def read_prop_def
  read_options_def instanceof_AssertError_def instanceof_Error_def is_function_def
  throwing_def raise_def await_def

lemma sample_returns:
  "call sample_env (VRef 2) [v] sample_world = (Inr v, sample_world)"
  by (simp add: sample_defs run_defs)

lemma sample_fails:
  "call sample_env (VRef 3) args sample_world = (Inl (VRef 14), failed_world)"
  by (simp add: sample_defs run_defs)

lemma sample_failure:
  "instanceof_AssertError (heap failed_world) (VRef 14)"
  by (simp add: sample_defs run_defs)

lemma sample_options:
  "read_options (heap sample_world) VUndefined = Inr (VUndefined, VBool False)"
  "read_options (heap sample_world) (VRef 9) = Inr (VRef 5, VBool False)"
  "read_options (heap sample_world) (VRef 10) = Inr (VRef 5, VBool True)"
  "read_options (heap sample_world) (VRef 11) = Inr (VRef 6, VBool False)"
  "read_options (heap sample_world) (VRef 12) = Inr (VRef 6, VBool True)"
  by (simp_all add: sample_defs run_defs)

lemma sample_records:
  "call sample_env (VRef 5) [e] failed_world =
     (Inr VUndefined, failed_world\<lparr>effects := [e]\<rparr>)"
  by (simp add: sample_defs run_defs)

lemma sample_callback_throws:
  "call sample_env (VRef 6) args failed_world =
     (Inl (VStr (ascii ''callback failed'')), failed_world)"
  by (simp add: sample_defs run_defs)

lemma sample_fallback_not_function: "\<not> is_function h (VNum 0)"
  by (simp add: is_function_def)

section \<open>The validator \<open>isValid\<close>\<close>






section \<open>The synchronous wrapper\<close>

text \<open>
  C1 (as amended). For a fallback that is not a function and options that can be read,
  \<open>assertRoute(fallback, fn, options)\<close> returns the wrapper of \<open>fn\<close>. When \<open>fn\<close> returns, the
  wrapper returns the same value in the world \<open>fn\<close> left. When \<open>fn\<close> throws an \<open>AssertError\<close>
  and there is no \<open>onError\<close> callback, the wrapper returns the fallback in the world \<open>fn\<close>
  left. When there is a callback, it is called with that error in that world; the wrapper
  returns the fallback if the callback returns, and throws what the callback throws if it
  throws.
\<close>

theorem assertRoute_failure_contract:
  assumes "\<not> is_function (heap w) fallback"
    and "read_options (heap w) options = Inr (onError, c)"
  shows "assertRoute env fallback fn options [] w =
           (Inr (Function (wrapSync_fn env fallback fn onError c)), w) \<and>
         (call env fn args wi = (Inr v, wa) \<longrightarrow>
            wrapSync_fn env fallback fn onError c args wi = (Inr v, wa)) \<and>
         (call env fn args wi = (Inl e, wa) \<longrightarrow> instanceof_AssertError (heap wa) e \<longrightarrow>
            (onError = VUndefined \<or> onError = VNull \<longrightarrow>
               wrapSync_fn env fallback fn onError c args wi = (Inr fallback, wa)) \<and>
            (onError \<noteq> VUndefined \<longrightarrow> onError \<noteq> VNull \<longrightarrow>
               (call env onError [e] wa = (Inr r, wr) \<longrightarrow>
                  wrapSync_fn env fallback fn onError c args wi = (Inr fallback, wr)) \<and>
               (call env onError [e] wa = (Inl x, wx) \<longrightarrow>
                  wrapSync_fn env fallback fn onError c args wi = (Inl x, wx))))"
proof (intro conjI impI)
  from assms show "assertRoute env fallback fn options [] w =
           (Inr (Function (wrapSync_fn env fallback fn onError c)), w)"
    by (simp add: assertRoute_def typeof_function_iff wrapSync_def)
next
  assume "call env fn args wi = (Inr v, wa)"
  then show "wrapSync_fn env fallback fn onError c args wi = (Inr v, wa)"
    by (simp add: wrapSync_fn_def)
next
  assume t: "call env fn args wi = (Inl e, wa)" and f: "instanceof_AssertError (heap wa) e"
  {
    assume "onError = VUndefined \<or> onError = VNull"
    with t f show "wrapSync_fn env fallback fn onError c args wi = (Inr fallback, wa)"
      by (simp add: wrapSync_fn_def handleError_def call_optional_absent)
  next
    assume p: "onError \<noteq> VUndefined" "onError \<noteq> VNull"
    {
      assume "call env onError [e] wa = (Inr r, wr)"
      with t f p show "wrapSync_fn env fallback fn onError c args wi = (Inr fallback, wr)"
        by (simp add: wrapSync_fn_def handleError_def call_optional_present)
    next
      assume "call env onError [e] wa = (Inl x, wx)"
      with t f p show "wrapSync_fn env fallback fn onError c args wi = (Inl x, wx)"
        by (simp add: wrapSync_fn_def handleError_def call_optional_present)
    }
  }
qed

theorem assertRoute_failure_contract_witness:
  "assertRoute sample_env (VNum 0) (VRef 2) (VRef 9) [] sample_world =
     (Inr (Function (wrapSync_fn sample_env (VNum 0) (VRef 2) (VRef 5) (VBool False))), sample_world) \<and>
   wrapSync_fn sample_env (VNum 0) (VRef 2) (VRef 5) (VBool False) [VNum 42] sample_world =
     (Inr (VNum 42), sample_world) \<and>
   wrapSync_fn sample_env (VNum 0) (VRef 3) VUndefined (VBool False) [] sample_world =
     (Inr (VNum 0), failed_world) \<and>
   wrapSync_fn sample_env (VNum 0) (VRef 3) (VRef 5) (VBool False) [] sample_world =
     (Inr (VNum 0), failed_world\<lparr>effects := [VRef 14]\<rparr>) \<and>
   wrapSync_fn sample_env (VNum 0) (VRef 3) (VRef 6) (VBool False) [] sample_world =
     (Inl (VStr (ascii ''callback failed'')), failed_world)"
proof -
  note nf = sample_fallback_not_function
  note t = assertRoute_failure_contract
  from t [where env = sample_env and fn = "VRef 2" and args = "[VNum 42]" and wi = sample_world
      and v = "VNum 42" and wa = sample_world, OF nf sample_options(2)] sample_returns
  have 1: "assertRoute sample_env (VNum 0) (VRef 2) (VRef 9) [] sample_world =
     (Inr (Function (wrapSync_fn sample_env (VNum 0) (VRef 2) (VRef 5) (VBool False))), sample_world)"
    and 2: "wrapSync_fn sample_env (VNum 0) (VRef 2) (VRef 5) (VBool False) [VNum 42] sample_world =
     (Inr (VNum 42), sample_world)"
    by simp_all
  from t [where env = sample_env and fn = "VRef 3" and args = "[]" and wi = sample_world
      and e = "VRef 14" and wa = failed_world, OF nf sample_options(1)] sample_fails sample_failure
  have 3: "wrapSync_fn sample_env (VNum 0) (VRef 3) VUndefined (VBool False) [] sample_world =
     (Inr (VNum 0), failed_world)"
    by simp
  from t [where env = sample_env and fn = "VRef 3" and args = "[]" and wi = sample_world
      and e = "VRef 14" and wa = failed_world and r = VUndefined
      and wr = "failed_world\<lparr>effects := [VRef 14]\<rparr>", OF nf sample_options(2)]
    sample_fails sample_failure sample_records
  have 4: "wrapSync_fn sample_env (VNum 0) (VRef 3) (VRef 5) (VBool False) [] sample_world =
     (Inr (VNum 0), failed_world\<lparr>effects := [VRef 14]\<rparr>)"
    by simp
  from t [where env = sample_env and fn = "VRef 3" and args = "[]" and wi = sample_world
      and e = "VRef 14" and wa = failed_world and x = "VStr (ascii ''callback failed'')"
      and wx = failed_world, OF nf sample_options(4)] sample_fails sample_failure
    sample_callback_throws
  have 5: "wrapSync_fn sample_env (VNum 0) (VRef 3) (VRef 6) (VBool False) [] sample_world =
     (Inl (VStr (ascii ''callback failed'')), failed_world)"
    by simp
  from 1 2 3 4 5 show ?thesis by simp
qed

text \<open>
  C1 as stated fails: in the sample program function 3 throws an \<open>AssertError\<close>, the
  callback of the options at address 11 throws, and the wrapper with fallback 0 throws
  the callback's value instead of returning 0.
\<close>

theorem throwing_callback_counterexample:
  "call sample_env (VRef 3) [] sample_world = (Inl (VRef 14), failed_world) \<and>
   instanceof_AssertError (heap failed_world) (VRef 14) \<and>
   assertRoute sample_env (VNum 0) (VRef 3) (VRef 11) [] sample_world =
     (Inr (Function (wrapSync_fn sample_env (VNum 0) (VRef 3) (VRef 6) (VBool False))), sample_world) \<and>
   wrapSync_fn sample_env (VNum 0) (VRef 3) (VRef 6) (VBool False) [] sample_world =
     (Inl (VStr (ascii ''callback failed'')), failed_world) \<and>
   fst (wrapSync_fn sample_env (VNum 0) (VRef 3) (VRef 6) (VBool False) [] sample_world) \<noteq>
     Inr (VNum 0)"
proof -
  have "wrapSync_fn sample_env (VNum 0) (VRef 3) (VRef 6) (VBool False) [] sample_world =
     (Inl (VStr (ascii ''callback failed'')), failed_world)"
    by (simp add: wrapSync_fn_def handleError_def sample_fails sample_failure
        call_optional_present sample_callback_throws)
  moreover have "assertRoute sample_env (VNum 0) (VRef 3) (VRef 11) [] sample_world =
     (Inr (Function (wrapSync_fn sample_env (VNum 0) (VRef 3) (VRef 6) (VBool False))), sample_world)"
    by (simp add: assertRoute_def wrapSync_def sample_options)
  ultimately show ?thesis by (simp add: sample_fails sample_failure)
qed

section \<open>Normalisation of caught values\<close>



lemma lookup_append_new_Suc: "lookup (h @ x # y # xs) (Suc (length h)) = Some y"
  by (simp add: lookup_def nth_append)

lemma lookup_Some_less: "lookup h a = Some obj \<Longrightarrow> a < length h"
  by (simp add: lookup_def split: if_splits)

lemma instanceof_Error_less: "instanceof_Error h (VRef a) \<Longrightarrow> a < length h"
  by (auto simp: instanceof_Error_def lookup_def split: if_splits)







text \<open>What a built-in operation throws reaches the caller as a value: the value raised
  by user code, or a new \<open>TypeError\<close> object.\<close>

lemma throwing_Raised: "throwing (Raised x) w = (Inl x, w)"
  by (simp add: throwing_def raise_def)

lemma throwing_TypeError:
  "throwing (TypeError m) w =
     (Inl (VRef (length (heap w))), w\<lparr>heap := heap w @ [OError (ascii ''TypeError'') m None]\<rparr>)"
  by (simp add: throwing_def raise_def alloc_def)















section \<open>Values thrown that are not failures\<close>








section \<open>The summariser\<close>




lemma Array_isArray_typeof: "Array_isArray h v \<Longrightarrow> js_typeof h v = ascii ''object''"
  by (cases v)
     (auto simp: Array_isArray_def is_function_def split: option.splits jsobj.splits)

lemma summarizeValue_array:
  assumes "Array_isArray h v"
  shows "summarizeValue h v =
     (case array_slice h v 3 of
        Inl e \<Rightarrow> Inl e
      | Inr xs \<Rightarrow>
          (case map_stringify h xs of
             Inl e \<Rightarrow> Inl e
           | Inr rs \<Rightarrow>
               Inr (ascii ''array(len='' @ nat_digits (array_length h v) @ ascii '', sample=[''
                    @ join_optional (ascii '', '') rs
                    @ (if array_length h v > 3 then ascii '', '' @ [ELLIPSIS] else [])
                    @ ascii ''])'')))"
proof -
  from assms have "v \<noteq> VNull" by (auto simp: Array_isArray_def)
  with assms show ?thesis by (simp add: summarizeValue_def Let_def split: sum.split)
qed

lemma summarizeValue_object:
  assumes "\<not> Array_isArray h v" and "v \<noteq> VNull" and "js_typeof h v = ascii ''object''"
  shows "summarizeValue h v =
     (case Object_keys h v of
        Inl e \<Rightarrow> Inl e
      | Inr ks \<Rightarrow>
          Inr (ascii ''object(keys=['' @ join (ascii '', '') (take 3 ks)
               @ (if length (take 3 ks) > 3 then ascii '', '' @ [ELLIPSIS] else [])
               @ ascii ''])''))"
  using assms by (simp add: summarizeValue_def Let_def split: sum.split)

lemma summarizeValue_string:
  "summarizeValue h (VStr s) =
     Inr (ascii ''string(len='' @ nat_digits (length s) @ ascii '', sample='' @ [DQUOTE]
          @ take 12 s @ (if length s > 12 then [ELLIPSIS] else []) @ [DQUOTE] @ ascii '')'')"
  by (simp add: summarizeValue_def Array_isArray_def)

lemma summarizeValue_other:
  assumes "js_typeof h v \<noteq> ascii ''object''" and "\<forall>s. v \<noteq> VStr s"
  shows "summarizeValue h v =
     (case js_String h v of
        Inl e \<Rightarrow> Inl e
      | Inr s \<Rightarrow> Inr (js_typeof h v @ ascii ''('' @ s @ ascii '')''))"
proof -
  from assms(1) have a: "\<not> Array_isArray h v" using Array_isArray_typeof by blast
  from assms(1) have n: "v \<noteq> VNull" by auto
  from assms(2) have "(case v of VStr s \<Rightarrow> f s | _ \<Rightarrow> g) = g" for f :: "ustring \<Rightarrow> jsthrow + ustring" and g
    by (cases v) simp_all
  with a n assms(1) show ?thesis by (simp add: summarizeValue_def Let_def)
qed


lemma summarizeValue_nonempty:
  assumes "summarizeValue h v = Inr s"
  shows "s \<noteq> []"
proof (cases "Array_isArray h v")
  case True
  with assms show ?thesis
    by (simp add: summarizeValue_array split: sum.splits) auto
next
  case False
  show ?thesis
  proof (cases "js_typeof h v = ascii ''object''")
    case True
    show ?thesis
    proof (cases "v = VNull")
      case True
      with assms show ?thesis by (auto simp: summarizeValue_def)
    next
      case n: False
      from assms show ?thesis
        by (simp add: summarizeValue_object [OF False n True] split: sum.splits) auto
    qed
  next
    case o: False
    show ?thesis
    proof (cases "\<exists>u. v = VStr u")
      case True
      with assms show ?thesis by (auto simp: summarizeValue_string)
    next
      case False
      then have u: "\<forall>u. v \<noteq> VStr u" by simp
      from assms show ?thesis
        by (simp add: summarizeValue_other [OF o u] split: sum.splits) auto
    qed
  qed
qed




lemmas summary_defs =
  Array_isArray_def array_elements_def array_length_def array_slice_def lookup_def
  JSON_stringify_def Object_keys_def join_optional_def read_prop_def is_function_def
  js_String_def

lemma summarizeValue_numbers:
  "lookup h a = Some (OArray [VNum 1, VNum 2, VNum 3, VNum 4]) \<Longrightarrow>
   summarizeValue h (VRef a) =
     Inr (ascii ''array(len=4, sample=[1, 2, 3, '' @ [ELLIPSIS] @ ascii ''])'')"
  by (simp add: summarizeValue_array Array_isArray_def array_elements_def array_length_def
      array_slice_def read_prop_def JSON_stringify_def join_optional_def int_digits_def ascii_def)






section \<open>The assertion primitive\<close>

text \<open>What the constructor returns when reading \<open>info\<close> and summarising \<open>info.value\<close> do
  not throw.\<close>

lemma new_AssertError_result:
  assumes "optional_value (heap w) info = Inr iv"
    and "iv \<noteq> VUndefined \<Longrightarrow> summarizeValue (heap w) iv = Inr s"
    and "spread (heap w) info = Inr ps"
  shows "new_AssertError env m info cause w =
           (Inr (VRef (Suc (length (heap w)))),
            w\<lparr>heap := heap w @
               [OPlain (set_prop (ascii ''caller'') (caller_value env) ps),
                OAssertError
                  (base_message env m
                   @ (if iv \<noteq> VUndefined then ascii '' (got: '' @ s @ ascii '')'' else []))
                  (length (heap w))
                  (if truthy cause then Some cause else None)]\<rparr>)"
proof (cases "iv = VUndefined")
  case True
  with assms(1,3) show ?thesis
    by (simp add: new_AssertError_def alloc_def base_message_def caller_value_def Let_def)
next
  case False
  with assms(1) have g: "get_property (heap w) info (ascii ''value'') = Inr iv"
    by (auto simp: optional_value_def split: if_splits)
  from False assms(2) have s: "summarizeValue (heap w) iv = Inr s" by simp
  then have "s \<noteq> []" by (rule summarizeValue_nonempty)
  with False assms(1,3) g s show ?thesis
    by (simp add: new_AssertError_def alloc_def base_message_def caller_value_def Let_def)
qed

text \<open>What the constructor does when reading \<open>info.value\<close>, summarising it or copying
  \<open>info\<close> throws: it throws the same, and creates no error.\<close>

lemma new_AssertError_read_throws:
  assumes "optional_value (heap w) info = Inl t"
  shows "new_AssertError env m info cause w = throwing t w"
  using assms by (simp add: new_AssertError_def)

lemma new_AssertError_summary_throws:
  assumes "optional_value (heap w) info = Inr iv" and "iv \<noteq> VUndefined"
    and "summarizeValue (heap w) iv = Inl t"
  shows "new_AssertError env m info cause w = throwing t w"
proof -
  from assms(1,2) have "get_property (heap w) info (ascii ''value'') = Inr iv"
    by (auto simp: optional_value_def split: if_splits)
  with assms show ?thesis by (simp add: new_AssertError_def)
qed

lemma new_AssertError_spread_throws:
  assumes "optional_value (heap w) info = Inr iv"
    and "iv \<noteq> VUndefined \<Longrightarrow> summarizeValue (heap w) iv = Inr s"
    and "spread (heap w) info = Inl t"
  shows "new_AssertError env m info cause w = throwing t w"
proof (cases "iv = VUndefined")
  case True
  with assms(1,3) show ?thesis by (simp add: new_AssertError_def Let_def)
next
  case False
  with assms(1) have "get_property (heap w) info (ascii ''value'') = Inr iv"
    by (auto simp: optional_value_def split: if_splits)
  with False assms show ?thesis by (simp add: new_AssertError_def Let_def)
qed

lemma assert_throwing:
  assumes "\<not> truthy condition"
    and "new_AssertError env (case message of None \<Rightarrow> ascii ''Assertion failed'' | Some m \<Rightarrow> m)
           info VUndefined w = throwing t w"
  shows "assert env condition message info w = throwing t w"
  using assms by (simp add: assert_def throwing_def split: prod.splits)

text \<open>
  C3 (as amended). For a truthy condition \<open>assert\<close> returns \<open>undefined\<close> and changes nothing.
  For a falsy condition it throws. When reading \<open>info.value\<close>, summarising it and copying
  \<open>info\<close> do not throw, what it throws is a new \<open>AssertError\<close>: its \<open>code\<close> is
  \<open>'ASSERT_FAILED'\<close>; its message is built from the given message (\<open>'Assertion failed'\<close> when
  none is given), followed by \<open>" (got: <summary>)"\<close> when \<open>info.value\<close> is not \<open>undefined\<close>; its
  \<open>info\<close> is a copy of the given \<open>info\<close> with the caller's name added; and the existing
  objects are left as they were. When reading \<open>info.value\<close> throws, or summarising it
  throws, or copying \<open>info\<close> throws, \<open>assert\<close> throws that exception and no \<open>AssertError\<close>: the
  value that user code raised, in an unchanged world, or the new \<open>TypeError\<close> of the
  built-in operation.
\<close>

theorem assert_contract:
  "(truthy condition \<longrightarrow> assert env condition message info w = (Inr VUndefined, w)) \<and>
   (\<not> truthy condition \<longrightarrow> (\<exists>e w'. assert env condition message info w = (Inl e, w'))) \<and>
   (\<not> truthy condition \<longrightarrow> optional_value (heap w) info = Inr iv \<longrightarrow>
    (iv \<noteq> VUndefined \<longrightarrow> summarizeValue (heap w) iv = Inr s) \<longrightarrow>
    spread (heap w) info = Inr ps \<longrightarrow>
      (\<exists>a i w'. assert env condition message info w = (Inl (VRef a), w') \<and>
         length (heap w) \<le> a \<and> take (length (heap w)) (heap w') = heap w \<and>
         effects w' = effects w \<and>
         instanceof_AssertError (heap w') (VRef a) \<and>
         get_property (heap w') (VRef a) (ascii ''code'') = Inr (VStr (ascii ''ASSERT_FAILED'')) \<and>
         get_property (heap w') (VRef a) (ascii ''message'') =
           Inr (VStr (base_message env
                        (case message of None \<Rightarrow> ascii ''Assertion failed'' | Some m \<Rightarrow> m)
                      @ (if iv \<noteq> VUndefined then ascii '' (got: '' @ s @ ascii '')'' else []))) \<and>
         get_property (heap w') (VRef a) (ascii ''info'') = Inr (VRef i) \<and>
         lookup (heap w') i =
           Some (OPlain (set_prop (ascii ''caller'') (caller_value env) ps)))) \<and>
   (\<not> truthy condition \<longrightarrow> optional_value (heap w) info = Inl t \<longrightarrow>
      assert env condition message info w = throwing t w) \<and>
   (\<not> truthy condition \<longrightarrow> optional_value (heap w) info = Inr iv \<longrightarrow> iv \<noteq> VUndefined \<longrightarrow>
    summarizeValue (heap w) iv = Inl t \<longrightarrow>
      assert env condition message info w = throwing t w) \<and>
   (\<not> truthy condition \<longrightarrow> optional_value (heap w) info = Inr iv \<longrightarrow>
    (iv \<noteq> VUndefined \<longrightarrow> summarizeValue (heap w) iv = Inr s) \<longrightarrow>
    spread (heap w) info = Inl t \<longrightarrow>
      assert env condition message info w = throwing t w) \<and>
   (throwing (Raised x) w :: (jsval + jsval) \<times> world) = (Inl x, w) \<and>
   (throwing (TypeError tm) w :: (jsval + jsval) \<times> world) =
     (Inl (VRef (length (heap w))),
      w\<lparr>heap := heap w @ [OError (ascii ''TypeError'') tm None]\<rparr>) \<and>
   \<not> instanceof_AssertError (heap w @ [OError (ascii ''TypeError'') tm None])
       (VRef (length (heap w)))"
proof (intro conjI impI)
  assume "truthy condition"
  then show "assert env condition message info w = (Inr VUndefined, w)"
    by (simp add: assert_def)
next
  assume "\<not> truthy condition"
  then show "\<exists>e w'. assert env condition message info w = (Inl e, w')"
    by (auto simp: assert_def split: prod.splits sum.splits)
next
  assume f: "\<not> truthy condition"
    and r: "optional_value (heap w) info = Inr iv"
      "iv \<noteq> VUndefined \<longrightarrow> summarizeValue (heap w) iv = Inr s"
      "spread (heap w) info = Inr ps"
  from r(2) have r2: "iv \<noteq> VUndefined \<Longrightarrow> summarizeValue (heap w) iv = Inr s" by simp
  note n = new_AssertError_result [OF r(1) r2 r(3), where env = env and cause = VUndefined]
  show "\<exists>a i w'. assert env condition message info w = (Inl (VRef a), w') \<and>
         length (heap w) \<le> a \<and> take (length (heap w)) (heap w') = heap w \<and>
         effects w' = effects w \<and>
         instanceof_AssertError (heap w') (VRef a) \<and>
         get_property (heap w') (VRef a) (ascii ''code'') = Inr (VStr (ascii ''ASSERT_FAILED'')) \<and>
         get_property (heap w') (VRef a) (ascii ''message'') =
           Inr (VStr (base_message env
                        (case message of None \<Rightarrow> ascii ''Assertion failed'' | Some m \<Rightarrow> m)
                      @ (if iv \<noteq> VUndefined then ascii '' (got: '' @ s @ ascii '')'' else []))) \<and>
         get_property (heap w') (VRef a) (ascii ''info'') = Inr (VRef i) \<and>
         lookup (heap w') i =
           Some (OPlain (set_prop (ascii ''caller'') (caller_value env) ps))"
    using f
    by (simp add: assert_def n instanceof_AssertError_def get_property_def lookup_def nth_append)
next
  assume "\<not> truthy condition" and "optional_value (heap w) info = Inl t"
  then show "assert env condition message info w = throwing t w"
    by (simp add: assert_throwing new_AssertError_read_throws)
next
  assume "\<not> truthy condition" and "optional_value (heap w) info = Inr iv" and "iv \<noteq> VUndefined"
    and "summarizeValue (heap w) iv = Inl t"
  then show "assert env condition message info w = throwing t w"
    by (simp add: assert_throwing new_AssertError_summary_throws)
next
  assume f: "\<not> truthy condition" and o: "optional_value (heap w) info = Inr iv"
    and u: "iv \<noteq> VUndefined \<longrightarrow> summarizeValue (heap w) iv = Inr s"
    and p: "spread (heap w) info = Inl t"
  from u have "iv \<noteq> VUndefined \<Longrightarrow> summarizeValue (heap w) iv = Inr s" by simp
  from new_AssertError_spread_throws [OF o this p] f
  show "assert env condition message info w = throwing t w"
    by (simp add: assert_throwing)
next
  show "(throwing (Raised x) w :: (jsval + jsval) \<times> world) = (Inl x, w)"
    by (rule throwing_Raised)
next
  show "(throwing (TypeError tm) w :: (jsval + jsval) \<times> world) =
     (Inl (VRef (length (heap w))),
      w\<lparr>heap := heap w @ [OError (ascii ''TypeError'') tm None]\<rparr>)"
    by (rule throwing_TypeError)
next
  show "\<not> instanceof_AssertError (heap w @ [OError (ascii ''TypeError'') tm None])
       (VRef (length (heap w)))"
    by (simp add: instanceof_AssertError_def lookup_def)
qed

lemma numbers_reads:
  "optional_value (heap numbers_world) (VRef 2) = Inr (VRef 0)"
  "spread (heap numbers_world) (VRef 2) = Inr [(ascii ''value'', Data (VRef 0))]"
  "summarizeValue (heap numbers_world) (VRef 0) =
     Inr (ascii ''array(len=4, sample=[1, 2, 3, '' @ [ELLIPSIS] @ ascii ''])'')"
  by (simp_all add: numbers_world_def numbers_heap_def optional_value_def spread_def
      get_property_def read_prop_def lookup_def summarizeValue_numbers)

lemma bigint_reads:
  "optional_value (heap bigint_world) (VRef 2) = Inr (VRef 0)"
  "summarizeValue (heap bigint_world) (VRef 0) = Inl bigint_error"
  by (simp_all add: bigint_world_def bigint_heap_def optional_value_def get_property_def
      read_prop_def summarizeValue_array summary_defs)

lemma cyclic_info_reads:
  "optional_value (heap cyclic_info_world) (VRef 2) = Inr (VRef 0)"
  "summarizeValue (heap cyclic_info_world) (VRef 0) = Inl cyclic_error"
  by (simp_all add: cyclic_info_world_def cyclic_info_heap_def optional_value_def
      get_property_def read_prop_def summarizeValue_array summary_defs)

lemma proxy_reads:
  "optional_value (heap \<lparr>heap = proxy_heap, effects = []\<rparr>) (VRef 0) =
     Inl (Raised (VStr (ascii ''no'')))"
  by (simp add: proxy_heap_def optional_value_def get_property_def lookup_def)

lemma getter_reads:
  "optional_value (heap \<lparr>heap = getter_heap, effects = []\<rparr>) (VRef 2) = Inr VUndefined"
  "spread (heap \<lparr>heap = getter_heap, effects = []\<rparr>) (VRef 2) =
     Inl (Raised (VStr (ascii ''no'')))"
  by (simp_all add: getter_heap_def optional_value_def get_property_def spread_def read_prop_def
      lookup_def)

theorem assert_contract_witness:
  "truthy (VNum 7) \<and>
   assert sample_env (VNum 7) None VUndefined sample_world = (Inr VUndefined, sample_world) \<and>
   \<not> truthy (VNum 0) \<and>
   (\<exists>e w'. assert sample_env (VNum 0) None VUndefined sample_world = (Inl e, w')) \<and>
   (\<exists>a i w'. assert sample_env (VNum 0) (Some (ascii ''custom'')) (VRef 2) numbers_world =
        (Inl (VRef a), w') \<and>
      instanceof_AssertError (heap w') (VRef a) \<and>
      get_property (heap w') (VRef a) (ascii ''code'') = Inr (VStr (ascii ''ASSERT_FAILED'')) \<and>
      get_property (heap w') (VRef a) (ascii ''message'') = Inr (VStr custom_message) \<and>
      get_property (heap w') (VRef a) (ascii ''info'') = Inr (VRef i) \<and>
      lookup (heap w') i =
        Some (OPlain [(ascii ''value'', Data (VRef 0)), (ascii ''caller'', Data VUndefined)])) \<and>
   summarizeValue (heap bigint_world) (VRef 0) = Inl bigint_error \<and>
   assert sample_env (VNum 0) None (VRef 2) bigint_world =
     (Inl (VRef 3),
      bigint_world\<lparr>heap := bigint_heap @
        [OError (ascii ''TypeError'') (ascii ''Do not know how to serialize a BigInt'') None]\<rparr>) \<and>
   summarizeValue (heap cyclic_info_world) (VRef 0) = Inl cyclic_error \<and>
   assert sample_env (VNum 0) None (VRef 2) cyclic_info_world =
     (Inl (VRef 3),
      cyclic_info_world\<lparr>heap := cyclic_info_heap @
        [OError (ascii ''TypeError'') (ascii ''Converting circular structure to JSON'') None]\<rparr>) \<and>
   assert sample_env (VNum 0) None (VRef 0) \<lparr>heap = proxy_heap, effects = []\<rparr> =
     (Inl (VStr (ascii ''no'')), \<lparr>heap = proxy_heap, effects = []\<rparr>) \<and>
   assert sample_env (VNum 0) None (VRef 2) \<lparr>heap = getter_heap, effects = []\<rparr> =
     (Inl (VStr (ascii ''no'')), \<lparr>heap = getter_heap, effects = []\<rparr>)"
proof -
  note t = assert_contract [where env = sample_env and x = "VStr (ascii ''no'')"]
  let ?no = "Raised (VStr (ascii ''no''))"
  from t [where condition = "VNum 7" and message = None and info = VUndefined
      and w = sample_world and iv = VUndefined and s = "[]" and ps = "[]" and t = ?no
      and tm = "[]"]
  have 1: "assert sample_env (VNum 7) None VUndefined sample_world = (Inr VUndefined, sample_world)"
    by simp
  from t [where condition = "VNum 0" and message = None and info = VUndefined
      and w = sample_world and iv = VUndefined and s = "[]" and ps = "[]" and t = ?no
      and tm = "[]"]
  have 2: "\<exists>e w'. assert sample_env (VNum 0) None VUndefined sample_world = (Inl e, w')"
    by simp
  from t [where condition = "VNum 0" and message = "Some (ascii ''custom'')"
      and info = "VRef 2" and w = numbers_world and iv = "VRef 0"
      and s = "ascii ''array(len=4, sample=[1, 2, 3, '' @ [ELLIPSIS] @ ascii ''])''"
      and ps = "[(ascii ''value'', Data (VRef 0))]" and t = ?no and tm = "[]"] numbers_reads
  have 3: "\<exists>a i w'. assert sample_env (VNum 0) (Some (ascii ''custom'')) (VRef 2) numbers_world =
        (Inl (VRef a), w') \<and>
      instanceof_AssertError (heap w') (VRef a) \<and>
      get_property (heap w') (VRef a) (ascii ''code'') = Inr (VStr (ascii ''ASSERT_FAILED'')) \<and>
      get_property (heap w') (VRef a) (ascii ''message'') = Inr (VStr custom_message) \<and>
      get_property (heap w') (VRef a) (ascii ''info'') = Inr (VRef i) \<and>
      lookup (heap w') i =
        Some (OPlain [(ascii ''value'', Data (VRef 0)), (ascii ''caller'', Data VUndefined)])"
    by (simp add: base_message_def caller_value_def getCallerName_def sample_env_def
        custom_message_def ascii_def) blast
  from t [where condition = "VNum 0" and message = None and info = "VRef 2"
      and w = bigint_world and iv = "VRef 0" and s = "[]" and ps = "[]"
      and t = "TypeError (ascii ''Do not know how to serialize a BigInt'')"
      and tm = "ascii ''Do not know how to serialize a BigInt''"] bigint_reads
  have 4: "assert sample_env (VNum 0) None (VRef 2) bigint_world =
     (Inl (VRef 3),
      bigint_world\<lparr>heap := bigint_heap @
        [OError (ascii ''TypeError'') (ascii ''Do not know how to serialize a BigInt'') None]\<rparr>)"
    by (simp add: bigint_error_def bigint_world_def bigint_heap_def)
  from t [where condition = "VNum 0" and message = None and info = "VRef 2"
      and w = cyclic_info_world and iv = "VRef 0" and s = "[]" and ps = "[]"
      and t = "TypeError (ascii ''Converting circular structure to JSON'')"
      and tm = "ascii ''Converting circular structure to JSON''"] cyclic_info_reads
  have 5: "assert sample_env (VNum 0) None (VRef 2) cyclic_info_world =
     (Inl (VRef 3),
      cyclic_info_world\<lparr>heap := cyclic_info_heap @
        [OError (ascii ''TypeError'') (ascii ''Converting circular structure to JSON'') None]\<rparr>)"
    by (simp add: cyclic_error_def cyclic_info_world_def cyclic_info_heap_def)
  from t [where condition = "VNum 0" and message = None and info = "VRef 0"
      and w = "\<lparr>heap = proxy_heap, effects = []\<rparr>" and iv = VUndefined and s = "[]"
      and ps = "[]" and t = ?no and tm = "[]"] proxy_reads
  have 6: "assert sample_env (VNum 0) None (VRef 0) \<lparr>heap = proxy_heap, effects = []\<rparr> =
     (Inl (VStr (ascii ''no'')), \<lparr>heap = proxy_heap, effects = []\<rparr>)"
    by simp
  from t [where condition = "VNum 0" and message = None and info = "VRef 2"
      and w = "\<lparr>heap = getter_heap, effects = []\<rparr>" and iv = VUndefined and s = "[]"
      and ps = "[]" and t = ?no and tm = "[]"] getter_reads
  have 7: "assert sample_env (VNum 0) None (VRef 2) \<lparr>heap = getter_heap, effects = []\<rparr> =
     (Inl (VStr (ascii ''no'')), \<lparr>heap = getter_heap, effects = []\<rparr>)"
    by simp
  from 1 2 3 4 5 6 7 bigint_reads cyclic_info_reads show ?thesis by simp
qed

text \<open>
  C3 as stated fails: \<open>assert(false, undefined, { value: [1n] })\<close> throws the \<open>TypeError\<close> that
  \<open>JSON.stringify\<close> raises for the BigInt, which is not an \<open>AssertError\<close>, and
  \<open>assert(false, undefined, { value: a })\<close> for the array \<open>a\<close> that contains itself throws the
  \<open>TypeError\<close> that \<open>JSON.stringify\<close> raises for the cycle.
\<close>

theorem assert_throws_TypeError_counterexample:
  "\<not> truthy (VBool False) \<and>
   assert sample_env (VBool False) None (VRef 2) bigint_world =
     (Inl (VRef 3),
      bigint_world\<lparr>heap := bigint_heap @
        [OError (ascii ''TypeError'') (ascii ''Do not know how to serialize a BigInt'') None]\<rparr>) \<and>
   \<not> instanceof_AssertError
       (bigint_heap @
        [OError (ascii ''TypeError'') (ascii ''Do not know how to serialize a BigInt'') None])
       (VRef 3) \<and>
   assert sample_env (VBool False) None (VRef 2) cyclic_info_world =
     (Inl (VRef 3),
      cyclic_info_world\<lparr>heap := cyclic_info_heap @
        [OError (ascii ''TypeError'') (ascii ''Converting circular structure to JSON'') None]\<rparr>) \<and>
   \<not> instanceof_AssertError
       (cyclic_info_heap @
        [OError (ascii ''TypeError'') (ascii ''Converting circular structure to JSON'') None])
       (VRef 3)"
proof -
  have 1: "assert sample_env (VBool False) None (VRef 2) bigint_world =
     (Inl (VRef 3),
      bigint_world\<lparr>heap := bigint_heap @
        [OError (ascii ''TypeError'') (ascii ''Do not know how to serialize a BigInt'') None]\<rparr>)"
    using new_AssertError_summary_throws [OF bigint_reads(1) _ bigint_reads(2),
        of sample_env "ascii ''Assertion failed''" VUndefined]
    by (simp add: assert_def throwing_TypeError bigint_error_def bigint_world_def bigint_heap_def)
  have 2: "assert sample_env (VBool False) None (VRef 2) cyclic_info_world =
     (Inl (VRef 3),
      cyclic_info_world\<lparr>heap := cyclic_info_heap @
        [OError (ascii ''TypeError'') (ascii ''Converting circular structure to JSON'') None]\<rparr>)"
    using new_AssertError_summary_throws [OF cyclic_info_reads(1) _ cyclic_info_reads(2),
        of sample_env "ascii ''Assertion failed''" VUndefined]
    by (simp add: assert_def throwing_TypeError cyclic_error_def cyclic_info_world_def
        cyclic_info_heap_def)
  have 3: "\<not> instanceof_AssertError
       (bigint_heap @
        [OError (ascii ''TypeError'') (ascii ''Do not know how to serialize a BigInt'') None])
       (VRef 3)"
    "\<not> instanceof_AssertError
       (cyclic_info_heap @
        [OError (ascii ''TypeError'') (ascii ''Converting circular structure to JSON'') None])
       (VRef 3)"
    by (simp_all add: bigint_heap_def cyclic_info_heap_def instanceof_AssertError_def lookup_def)
  from 1 2 3 show ?thesis by simp
qed

section \<open>The message of a failure with a value\<close>

lemma starts_with_append: "starts_with (t @ s) t"
  by (induction t) simp_all

lemma js_includes_prefix: "js_includes (t @ s) t"
  using starts_with_append [of t s] by (cases "t @ s") auto

text \<open>
  C8 (as amended). \<open>assert(false, "custom", { value: [1, 2, 3, 4] })\<close> throws an \<open>AssertError\<close>
  whose message is \<open>custom (got: array(len=4, sample=[1, 2, 3, ...]))\<close>, where \<open>...\<close> stands
  for the ellipsis character: the custom message, then the \<open>(got: ...)\<close> clause with the
  summary of the array, in which the ellipsis follows the first three elements inside the
  brackets. So the message contains \<open>custom (got: array(len=4, sample=[1, 2, 3, ...]\<close>.
\<close>

theorem assert_custom_message:
  assumes "lookup (heap w) a = Some (OArray [VNum 1, VNum 2, VNum 3, VNum 4])"
    and "lookup (heap w) i = Some (OPlain [(ascii ''value'', Data (VRef a))])"
  shows "\<exists>e w'. assert env (VBool False) (Some (ascii ''custom'')) (VRef i) w = (Inl e, w') \<and>
           instanceof_AssertError (heap w') e \<and>
           message_of (heap w') e =
             ascii ''custom (got: array(len=4, sample=[1, 2, 3, '' @ [ELLIPSIS] @ ascii '']))'' \<and>
           js_includes (message_of (heap w') e)
             (ascii ''custom (got: array(len=4, sample=[1, 2, 3, '' @ [ELLIPSIS] @ ascii '']'')"
proof -
  have o: "optional_value (heap w) (VRef i) = Inr (VRef a)"
    using assms(2) by (simp add: optional_value_def get_property_def read_prop_def)
  have p: "spread (heap w) (VRef i) = Inr [(ascii ''value'', Data (VRef a))]"
    using assms(2) by (simp add: spread_def read_prop_def)
  have s: "VRef a \<noteq> VUndefined \<Longrightarrow> summarizeValue (heap w) (VRef a) =
             Inr (ascii ''array(len=4, sample=[1, 2, 3, '' @ [ELLIPSIS] @ ascii ''])'')"
    using assms(1) by (simp add: summarizeValue_numbers)
  note n = new_AssertError_result [OF o s p, where env = env and cause = VUndefined
      and m = "ascii ''custom''"]
  have c: "custom_message =
      (ascii ''custom (got: array(len=4, sample=[1, 2, 3, '' @ [ELLIPSIS] @ ascii '']'') @ ascii ''))''"
    by (simp add: custom_message_def ascii_def)
  have "js_includes custom_message
          (ascii ''custom (got: array(len=4, sample=[1, 2, 3, '' @ [ELLIPSIS] @ ascii '']'')"
    unfolding c by (rule js_includes_prefix)
  then show ?thesis
    by (simp add: assert_def n instanceof_AssertError_def message_of_def lookup_def nth_append
        base_message_def)
       (simp add: custom_message_def ascii_def)
qed

theorem assert_custom_message_witness:
  "lookup (heap numbers_world) 0 = Some (OArray [VNum 1, VNum 2, VNum 3, VNum 4]) \<and>
   lookup (heap numbers_world) 2 = Some (OPlain [(ascii ''value'', Data (VRef 0))]) \<and>
   (\<exists>e w'. assert sample_env (VBool False) (Some (ascii ''custom'')) (VRef 2) numbers_world =
        (Inl e, w') \<and>
      instanceof_AssertError (heap w') e \<and>
      message_of (heap w') e =
        ascii ''custom (got: array(len=4, sample=[1, 2, 3, '' @ [ELLIPSIS] @ ascii '']))'' \<and>
      js_includes (message_of (heap w') e)
        (ascii ''custom (got: array(len=4, sample=[1, 2, 3, '' @ [ELLIPSIS] @ ascii '']''))"
proof -
  have 1: "lookup (heap numbers_world) 0 = Some (OArray [VNum 1, VNum 2, VNum 3, VNum 4])"
    and 2: "lookup (heap numbers_world) 2 = Some (OPlain [(ascii ''value'', Data (VRef 0))])"
    by (simp_all add: numbers_world_def numbers_heap_def lookup_def)
  from assert_custom_message [OF 1 2, of sample_env] 1 2 show ?thesis by blast
qed

text \<open>
  C8 as stated fails: the message thrown is \<open>custom (got: array(len=4, sample=[1, 2, 3, ...]))\<close>
  and it contains neither \<open>custom (got: array(len=4, sample=[1, 2, 3]...\<close> nor
  \<open>custom (got: array(len=4, sample=[1, 2, 3]\<close>: the third element is followed by a comma,
  not by the closing bracket.
\<close>

theorem custom_message_counterexample:
  "assert sample_env (VBool False) (Some (ascii ''custom'')) (VRef 2) numbers_world =
     (Inl (VRef 4),
      numbers_world\<lparr>heap := numbers_heap @
        [OPlain [(ascii ''value'', Data (VRef 0)), (ascii ''caller'', Data VUndefined)],
         OAssertError custom_message 3 None]\<rparr>) \<and>
   \<not> js_includes custom_message
       (ascii ''custom (got: array(len=4, sample=[1, 2, 3]'' @ [ELLIPSIS]) \<and>
   \<not> js_includes custom_message (ascii ''custom (got: array(len=4, sample=[1, 2, 3]'')"
proof -
  have s: "VRef 0 \<noteq> VUndefined \<Longrightarrow> summarizeValue (heap numbers_world) (VRef 0) =
             Inr (ascii ''array(len=4, sample=[1, 2, 3, '' @ [ELLIPSIS] @ ascii ''])'')"
    by (simp add: numbers_reads)
  note n = new_AssertError_result [OF numbers_reads(1) s numbers_reads(2),
      where env = sample_env and cause = VUndefined and m = "ascii ''custom''"]
  have 1: "assert sample_env (VBool False) (Some (ascii ''custom'')) (VRef 2) numbers_world =
     (Inl (VRef 4),
      numbers_world\<lparr>heap := numbers_heap @
        [OPlain [(ascii ''value'', Data (VRef 0)), (ascii ''caller'', Data VUndefined)],
         OAssertError custom_message 3 None]\<rparr>)"
    using n
    by (simp add: assert_def base_message_def caller_value_def getCallerName_def sample_env_def
        numbers_world_def numbers_heap_def custom_message_def ascii_def)
  have 2: "\<not> js_includes custom_message
       (ascii ''custom (got: array(len=4, sample=[1, 2, 3]'' @ [ELLIPSIS])"
    by (simp add: custom_message_def ascii_def ELLIPSIS_def)
  have 3: "\<not> js_includes custom_message (ascii ''custom (got: array(len=4, sample=[1, 2, 3]'')"
    by (simp add: custom_message_def ascii_def ELLIPSIS_def)
  from 1 2 3 show ?thesis by simp
qed

section \<open>The call forms of \<open>assertRoute\<close>\<close>

text \<open>
  C10. When the first argument \<open>f\<close> of \<open>assertRoute(f, fn)\<close> is a function, \<open>assertRoute\<close>
  wraps \<open>f\<close> with the fallback \<open>undefined\<close> and reads its options from \<open>fn\<close>. When \<open>fn\<close> is a
  function too, the options read from it are no callback and no recovery, and the wrapper
  that is returned calls \<open>f\<close>: it returns what \<open>f\<close> returns, and returns \<open>undefined\<close> when \<open>f\<close>
  throws an \<open>AssertError\<close>.
\<close>

theorem assertRoute_function_first:
  assumes "is_function (heap w) f"
  shows "assertRoute_call env [f, fn] w =
           (case read_options (heap w) fn of
              Inl t \<Rightarrow> throwing t w
            | Inr (onError, c) \<Rightarrow> (Inr (Function (wrapSync_fn env VUndefined f onError c)), w)) \<and>
         (is_function (heap w) fn \<longrightarrow>
            read_options (heap w) fn = Inr (VUndefined, VBool False) \<and>
            assertRoute_call env [f, fn] w =
              (Inr (Function (wrapSync_fn env VUndefined f VUndefined (VBool False))), w)) \<and>
         (call env f args wi = (Inr v, wa) \<longrightarrow>
            wrapSync_fn env VUndefined f VUndefined (VBool False) args wi = (Inr v, wa)) \<and>
         (call env f args wi = (Inl e, wa) \<longrightarrow> instanceof_AssertError (heap wa) e \<longrightarrow>
            wrapSync_fn env VUndefined f VUndefined (VBool False) args wi = (Inr VUndefined, wa))"
proof (intro conjI impI)
  from assms show "assertRoute_call env [f, fn] w =
           (case read_options (heap w) fn of
              Inl t \<Rightarrow> throwing t w
            | Inr (onError, c) \<Rightarrow> (Inr (Function (wrapSync_fn env VUndefined f onError c)), w))"
    by (simp add: assertRoute_call_def assertRoute_def argument_def typeof_function_iff
        wrapSync_def throwing_def split: sum.splits prod.splits)
next
  assume fn: "is_function (heap w) fn"
  then show o: "read_options (heap w) fn = Inr (VUndefined, VBool False)"
    by (auto simp: is_function_def read_options_def get_property_def
        split: jsval.splits option.splits jsobj.splits)
  with assms show "assertRoute_call env [f, fn] w =
              (Inr (Function (wrapSync_fn env VUndefined f VUndefined (VBool False))), w)"
    by (simp add: assertRoute_call_def assertRoute_def argument_def typeof_function_iff
        wrapSync_def)
next
  assume "call env f args wi = (Inr v, wa)"
  then show "wrapSync_fn env VUndefined f VUndefined (VBool False) args wi = (Inr v, wa)"
    by (simp add: wrapSync_fn_def)
next
  assume "call env f args wi = (Inl e, wa)" and "instanceof_AssertError (heap wa) e"
  then show "wrapSync_fn env VUndefined f VUndefined (VBool False) args wi = (Inr VUndefined, wa)"
    by (simp add: wrapSync_fn_def handleError_def call_optional_def)
qed

lemma sample_functions:
  "is_function (heap sample_world) (VRef 2)"
  "is_function (heap sample_world) (VRef 3)"
  by (simp_all add: sample_defs run_defs)

theorem assertRoute_function_first_witness:
  "is_function (heap sample_world) (VRef 2) \<and> is_function (heap sample_world) (VRef 3) \<and>
   assertRoute_call sample_env [VRef 2, VRef 3] sample_world =
     (Inr (Function (wrapSync_fn sample_env VUndefined (VRef 2) VUndefined (VBool False))),
      sample_world) \<and>
   wrapSync_fn sample_env VUndefined (VRef 2) VUndefined (VBool False) [VNum 5] sample_world =
     (Inr (VNum 5), sample_world) \<and>
   assertRoute_call sample_env [VRef 3, VRef 2] sample_world =
     (Inr (Function (wrapSync_fn sample_env VUndefined (VRef 3) VUndefined (VBool False))),
      sample_world) \<and>
   wrapSync_fn sample_env VUndefined (VRef 3) VUndefined (VBool False) [] sample_world =
     (Inr VUndefined, failed_world)"
proof -
  note t = assertRoute_function_first
  from t [OF sample_functions(1), where fn = "VRef 3" and env = sample_env
      and args = "[VNum 5]" and wi = sample_world and v = "VNum 5" and wa = sample_world]
    sample_functions sample_returns
  have 1: "assertRoute_call sample_env [VRef 2, VRef 3] sample_world =
     (Inr (Function (wrapSync_fn sample_env VUndefined (VRef 2) VUndefined (VBool False))),
      sample_world)"
    and 2: "wrapSync_fn sample_env VUndefined (VRef 2) VUndefined (VBool False) [VNum 5] sample_world =
     (Inr (VNum 5), sample_world)"
    by simp_all
  from t [OF sample_functions(2), where fn = "VRef 2" and env = sample_env
      and args = "[]" and wi = sample_world and e = "VRef 14" and wa = failed_world]
    sample_functions sample_fails sample_failure
  have 3: "assertRoute_call sample_env [VRef 3, VRef 2] sample_world =
     (Inr (Function (wrapSync_fn sample_env VUndefined (VRef 3) VUndefined (VBool False))),
      sample_world)"
    and 4: "wrapSync_fn sample_env VUndefined (VRef 3) VUndefined (VBool False) [] sample_world =
     (Inr VUndefined, failed_world)"
    by simp_all
  from 1 2 3 4 sample_functions show ?thesis by simp
qed

text \<open>
  C4, evaluated. In the form that starts with the function, the first argument after
  the options is bound to the third parameter and is not passed on: with one trailing
  argument nothing is called and a function is returned, and with two trailing arguments
  the function is called with the second one only. In the form that starts with the
  fallback, the trailing argument is passed on and the result is returned.
\<close>

theorem assertRoute_plain_form_trailing_arguments:
  "assertRoute_call sample_env [VRef 2, VUndefined, VNum 7] sample_world =
     (Inr (Function (wrapSync_fn sample_env VUndefined (VRef 2) VUndefined (VBool False))),
      sample_world) \<and>
   assertRoute_call sample_env [VRef 2, VUndefined, VNum 7, VNum 8] sample_world =
     (Inr (Value (VNum 8)), sample_world) \<and>
   assertRoute_call sample_env [VNum 0, VRef 2, VUndefined, VNum 7] sample_world =
     (Inr (Value (VNum 7)), sample_world)"
proof -
  have 1: "assertRoute_call sample_env [VRef 2, VUndefined, VNum 7] sample_world =
     (Inr (Function (wrapSync_fn sample_env VUndefined (VRef 2) VUndefined (VBool False))),
      sample_world)"
    by (simp add: assertRoute_call_def assertRoute_def argument_def typeof_function_iff
        sample_functions wrapSync_def sample_options)
  have 2: "assertRoute_call sample_env [VRef 2, VUndefined, VNum 7, VNum 8] sample_world =
     (Inr (Value (VNum 8)), sample_world)"
    by (simp add: assertRoute_call_def assertRoute_def argument_def typeof_function_iff
        sample_functions wrapSync_def sample_options wrapSync_fn_def sample_returns)
  have 3: "assertRoute_call sample_env [VNum 0, VRef 2, VUndefined, VNum 7] sample_world =
     (Inr (Value (VNum 7)), sample_world)"
    by (simp add: assertRoute_call_def assertRoute_def argument_def typeof_function_iff
        sample_fallback_not_function wrapSync_def sample_options wrapSync_fn_def sample_returns)
  from 1 2 3 show ?thesis by simp
qed

section \<open>The asynchronous wrapper\<close>








end
